theory Spec2Isabelle
  imports Main
begin

section \<open>Values of the Python program\<close>

text \<open>
  The two scripts handle decoded JSON documents (what \<open>response.json()\<close> returns and
  what is passed as \<open>json=payload\<close>).  A Python \<open>dict\<close> is an association list read
  with \<open>map_of\<close>; Python's \<open>None\<close> is \<open>JNull\<close>.  JSON numbers are integers here:
  no field that the scripts read is numeric.
\<close>

datatype json =
    JNull
  | JBool bool
  | JInt int
  | JStr string
  | JList "json list"
  | JObj "(string \<times> json) list"

text \<open>The exceptions (all subclasses of Python's \<open>Exception\<close>) that the scripts can meet.\<close>

datatype py_exn =
    IndexError
  | KeyError
  | TypeError
  | AttributeError
  | ValueError
  | OverflowError
  | JSONDecodeError
  | RequestException

text \<open>Truth value of an object, as \<open>if x\<close> and \<open>not x\<close> test it.\<close>

fun truthy :: "json \<Rightarrow> bool" where
  "truthy JNull = False"
| "truthy (JBool b) = b"
| "truthy (JInt i) = (i \<noteq> 0)"
| "truthy (JStr s) = (s \<noteq> [])"
| "truthy (JList xs) = (xs \<noteq> [])"
| "truthy (JObj kvs) = (kvs \<noteq> [])"

text \<open>\<open>d.get(key, default)\<close>: only a dict has the method.\<close>

fun dict_get :: "json \<Rightarrow> string \<Rightarrow> json \<Rightarrow> py_exn + json" where
  "dict_get (JObj kvs) k dflt = Inr (case map_of kvs k of None \<Rightarrow> dflt | Some v \<Rightarrow> v)"
| "dict_get _ k dflt = Inl AttributeError"

text \<open>\<open>obj[key]\<close> with a string key: a missing key of a dict raises \<open>KeyError\<close>, any
  other object raises \<open>TypeError\<close>.\<close>

fun getitem :: "json \<Rightarrow> string \<Rightarrow> py_exn + json" where
  "getitem (JObj kvs) k = (case map_of kvs k of None \<Rightarrow> Inl KeyError | Some v \<Rightarrow> Inr v)"
| "getitem _ k = Inl TypeError"

subsection \<open>Strings\<close>

definition quote :: char where
  "quote = CHR 0x27"

text \<open>\<open>s.split(c)\<close> for a one-character separator: never empty, one more piece than
  there are separators.\<close>

fun split_from :: "char \<Rightarrow> string \<Rightarrow> string \<Rightarrow> string list" where
  "split_from c piece [] = [piece]"
| "split_from c piece (x # xs) =
     (if x = c then piece # split_from c [] xs
      else split_from c (piece @ [x]) xs)"

definition split :: "char \<Rightarrow> string \<Rightarrow> string list" where
  "split c s = split_from c [] s"

text \<open>\<open>sub in s\<close> for strings.\<close>

fun str_in :: "string \<Rightarrow> string \<Rightarrow> bool" where
  "str_in sub [] = (sub = [])"
| "str_in sub (c # cs) = (take (length sub) (c # cs) = sub \<or> str_in sub cs)"

text \<open>\<open>x in obj\<close> for a string \<open>x\<close>: substring test on a string, membership on a
  list, key test on a dict, \<open>TypeError\<close> on anything else.\<close>

fun py_in :: "string \<Rightarrow> json \<Rightarrow> py_exn + bool" where
  "py_in x (JStr s) = Inr (str_in x s)"
| "py_in x (JList xs) = Inr (JStr x \<in> set xs)"
| "py_in x (JObj kvs) = Inr (x \<in> fst ` set kvs)"
| "py_in x _ = Inl TypeError"

text \<open>\<open>pattern.split("'")[1]\<close>: only a string has \<open>split\<close>; index 1 is out of range
  when the string holds no single quote.\<close>

fun split_quote_1 :: "json \<Rightarrow> py_exn + string" where
  "split_quote_1 (JStr s) =
     (case split quote s of
        _ # v # _ \<Rightarrow> Inr v
      | _ \<Rightarrow> Inl IndexError)"
| "split_quote_1 _ = Inl AttributeError"

subsection \<open>Formatted strings\<close>

text \<open>
  An f-string is kept as its parts: the literal text and the interpolated values, where
  \<open>Val v\<close> stands for \<open>str(v)\<close>.  Nested f-strings are concatenations of parts.
\<close>

datatype fpart = Lit string | Val json

type_synonym fstring = "fpart list"

section \<open>The transformer of \<open>crowdstrike_ioc_ingestor.py\<close>\<close>

text \<open>
  \<open>transform_stix_to_ioc\<close> returns the dict of the IOC, or \<open>None\<close> after printing a
  warning; the second component is what it printed.
\<close>

definition ioc_dict :: "string \<Rightarrow> string \<Rightarrow> json" where
  "ioc_dict ioc_type v =
     JObj [(''type'', JStr ioc_type), (''value'', JStr v),
           (''action'', JStr ''detect''), (''source'', JStr ''TAXII Import'')]"

definition transform_classified :: "string \<Rightarrow> json \<Rightarrow> (py_exn + json) \<times> fstring list" where
  "transform_classified ioc_type pattern =
     (case split_quote_1 pattern of
        Inl e \<Rightarrow> (Inl e, [])
      | Inr v \<Rightarrow> (Inr (ioc_dict ioc_type v), []))"

definition transform_stix_to_ioc :: "json \<Rightarrow> (py_exn + json) \<times> fstring list" where
  "transform_stix_to_ioc stix_indicator =
     (case dict_get stix_indicator ''pattern'' (JStr '''') of
        Inl e \<Rightarrow> (Inl e, [])
      | Inr pattern \<Rightarrow>
         (case py_in ''domain-name'' pattern of
            Inl e \<Rightarrow> (Inl e, [])
          | Inr True \<Rightarrow> transform_classified ''domain'' pattern
          | Inr False \<Rightarrow>
             (case py_in ''ipv4-addr'' pattern of
                Inl e \<Rightarrow> (Inl e, [])
              | Inr True \<Rightarrow> transform_classified ''ipv4'' pattern
              | Inr False \<Rightarrow>
                 (case py_in ''file:hashes'' pattern of
                    Inl e \<Rightarrow> (Inl e, [])
                  | Inr True \<Rightarrow> transform_classified ''sha256'' pattern
                  | Inr False \<Rightarrow>
                      (Inr JNull, [[Lit ''Unsupported STIX pattern: '', Val pattern]])))))"

section \<open>The world of the scripts\<close>

text \<open>
  The module constants that \<open>taxii_to_crowdstrike.py\<close> reads from the environment.
  \<open>RATE_LIMIT_DELAY\<close> is a duration in seconds, a natural number.
\<close>

record config =
  CLIENT_ID :: string
  CLIENT_SECRET :: string
  TAXII_SERVER_URL :: string
  TAXII_USERNAME :: string
  TAXII_PASSWORD :: string
  TAXII_COLLECTION :: string
  RATE_LIMIT_DELAY :: nat

definition MAX_RETRIES :: nat where
  "MAX_RETRIES = 3"

subsection \<open>HTTP\<close>

datatype http_method = GET | POST | PATCH

datatype payload =
    NoBody
  | FormData "(string \<times> string) list"
  | RawData string
  | JsonBody json

record request =
  rq_method :: http_method
  rq_url :: fstring
  rq_headers :: "(string \<times> fstring) list"
  rq_auth :: "(string \<times> string) option"
  rq_body :: payload

text \<open>
  A response as the scripts read it: \<open>status_code\<close>, \<open>text\<close> (here \<open>response_text\<close>) and the document that
  \<open>json()\<close> decodes, \<open>None\<close> when the body is not JSON (\<open>json()\<close> raises).
\<close>

record response =
  status_code :: int
  response_text :: string
  json_body :: "json option"

definition response_json :: "response \<Rightarrow> py_exn + json" where
  "response_json r = (case json_body r of None \<Rightarrow> Inl JSONDecodeError | Some j \<Rightarrow> Inr j)"

subsection \<open>Effects\<close>

text \<open>
  Everything the script does to the outside is an event of the trace, in the order it
  happens.  The outside answers through two streams the script cannot change: \<open>net\<close>
  gives the outcome of the n-th HTTP call (a response, or an exception raised by
  \<open>requests\<close>), \<open>clock\<close> gives the n-th reading of the system clock, in microseconds
  since 1970-01-01T00:00:00 UTC.  Since the script is sequential and deterministic, any
  server behaviour is one such stream.
\<close>

datatype event =
    LogInfo fstring
  | Print fstring
  | Sleep nat
  | Http request

record world =
  net :: "nat \<Rightarrow> py_exn + response"
  clock :: "nat \<Rightarrow> nat"
  http_calls :: nat
  clock_reads :: nat
  trace :: "event list"

definition emit :: "event \<Rightarrow> world \<Rightarrow> world" where
  "emit e w = w\<lparr>trace := trace w @ [e]\<rparr>"

definition log :: "fstring \<Rightarrow> world \<Rightarrow> world" where
  "log message w = emit (Print message) (emit (LogInfo message) w)"

definition time_sleep :: "nat \<Rightarrow> world \<Rightarrow> world" where
  "time_sleep secs w = emit (Sleep secs) w"

definition requests_send :: "request \<Rightarrow> world \<Rightarrow> (py_exn + response) \<times> world" where
  "requests_send rq w =
     (net w (http_calls w), (emit (Http rq) w)\<lparr>http_calls := Suc (http_calls w)\<rparr>)"

section \<open>\<open>taxii_to_crowdstrike.py\<close>\<close>

subsection \<open>\<open>retry\<close>\<close>

text \<open>
  A called function either returns a value or raises, and leaves a new world; \<open>None\<close>
  means that it never returns.  \<open>retry\<close> returns what \<open>func\<close> returned (\<open>Some v\<close>), or
  its own \<open>None\<close> after the last attempt.
\<close>

type_synonym 'a call = "world \<Rightarrow> ((py_exn + 'a) \<times> world) option"

text \<open>A function without a loop always returns or raises.\<close>

definition returns :: "(world \<Rightarrow> (py_exn + 'a) \<times> world) \<Rightarrow> 'a call" where
  "returns f w = Some (f w)"

text \<open>The \<open>except\<close> branch before \<open>n += 1\<close> and \<open>delay *= 2\<close>: the log line and the
  sleep.\<close>

definition backoff :: "nat \<Rightarrow> nat \<Rightarrow> world \<Rightarrow> world" where
  "backoff n delay w =
     time_sleep delay
       (log [Lit ''Command failed. Attempt '', Val (JInt (int n)), Lit ''/'',
             Val (JInt (int MAX_RETRIES)), Lit ''. Retrying in '',
             Val (JInt (int delay)), Lit '' seconds...''] w)"

function retry_loop :: "'a call \<Rightarrow> nat \<Rightarrow> nat \<Rightarrow> world \<Rightarrow> ('a option \<times> world) option" where
  "retry_loop func n delay w =
     (if n \<le> MAX_RETRIES then
        (case func w of
           None \<Rightarrow> None
         | Some (Inr v, w') \<Rightarrow> Some (Some v, w')
         | Some (Inl e, w') \<Rightarrow> retry_loop func (n + 1) (delay * 2) (backoff n delay w'))
      else Some (None, log [Lit ''The command has failed after maximum retry attempts.''] w))"
  by pat_completeness auto
termination
  by (relation "measure (\<lambda>(func, n, delay, w). Suc MAX_RETRIES - n)") auto

definition retry :: "'a call \<Rightarrow> world \<Rightarrow> ('a option \<times> world) option" where
  "retry func w = retry_loop func 1 5 w"

subsection \<open>\<open>rate_limit\<close>\<close>

definition rate_limit :: "config \<Rightarrow> world \<Rightarrow> world" where
  "rate_limit cfg w =
     time_sleep (RATE_LIMIT_DELAY cfg)
       (log [Lit ''Rate limiting: Waiting for '', Val (JInt (int (RATE_LIMIT_DELAY cfg))),
             Lit '' seconds before the next request...''] w)"

subsection \<open>\<open>get_crowdstrike_token\<close>\<close>

definition token_request :: "config \<Rightarrow> request" where
  "token_request cfg =
     \<lparr>rq_method = POST, rq_url = [Lit ''https://api.crowdstrike.com/oauth2/token''],
      rq_headers = [], rq_auth = None,
      rq_body = FormData [(''client_id'', CLIENT_ID cfg),
                          (''client_secret'', CLIENT_SECRET cfg)]\<rparr>"

definition get_crowdstrike_token :: "config \<Rightarrow> world \<Rightarrow> (py_exn + json) \<times> world" where
  "get_crowdstrike_token cfg w =
     (case requests_send (token_request cfg)
             (log [Lit ''Fetching CrowdStrike OAuth2 token...''] w) of
        (Inl e, w1) \<Rightarrow> (Inl e, w1)
      | (Inr response, w1) \<Rightarrow>
          if status_code response = 200 then
            (case response_json response of
               Inl e \<Rightarrow> (Inl e, w1)
             | Inr doc \<Rightarrow>
                (case dict_get doc ''access_token'' JNull of
                   Inl e \<Rightarrow> (Inl e, w1)
                 | Inr access_token \<Rightarrow>
                     (Inr access_token, log [Lit ''CrowdStrike OAuth2 token acquired.''] w1)))
          else
            (Inr JNull,
             log [Lit ''Failed to get OAuth2 token: '', Val (JInt (status_code response)),
                  Lit '' '', Val (JStr (response_text response))] w1))"

subsection \<open>\<open>poll_taxii_server\<close>\<close>

text \<open>Iterating over an object in a \<open>for\<close> clause: a string yields its characters, a
  dict its keys.\<close>

fun py_iter :: "json \<Rightarrow> py_exn + json list" where
  "py_iter (JList xs) = Inr xs"
| "py_iter (JStr s) = Inr (map (\<lambda>c. JStr [c]) s)"
| "py_iter (JObj kvs) = Inr (map (\<lambda>kv. JStr (fst kv)) kvs)"
| "py_iter _ = Inl TypeError"

text \<open>The list comprehension
  \<open>[obj['pattern'].split("'")[1] for obj in ... if obj['type'] == 'indicator']\<close>,
  object by object; the first exception ends it.\<close>

definition pattern_value :: "json \<Rightarrow> py_exn + string" where
  "pattern_value obj =
     (case getitem obj ''pattern'' of
        Inl e \<Rightarrow> Inl e
      | Inr pattern \<Rightarrow> split_quote_1 pattern)"

fun comprehend_iocs :: "json list \<Rightarrow> py_exn + string list" where
  "comprehend_iocs [] = Inr []"
| "comprehend_iocs (obj # objs) =
     (case getitem obj ''type'' of
        Inl e \<Rightarrow> Inl e
      | Inr ty \<Rightarrow>
          if ty = JStr ''indicator'' then
            (case pattern_value obj of
               Inl e \<Rightarrow> Inl e
             | Inr v \<Rightarrow>
                (case comprehend_iocs objs of
                   Inl e \<Rightarrow> Inl e
                 | Inr vs \<Rightarrow> Inr (v # vs)))
          else comprehend_iocs objs)"

definition page_iocs :: "json \<Rightarrow> py_exn + string list" where
  "page_iocs taxii_data =
     (case dict_get taxii_data ''objects'' (JList []) of
        Inl e \<Rightarrow> Inl e
      | Inr objects \<Rightarrow>
         (case py_iter objects of
            Inl e \<Rightarrow> Inl e
          | Inr objs \<Rightarrow> comprehend_iocs objs))"

text \<open>The request body
  \<open>f"<taxii_poll_request_xml{' next=' + next_token if next_token else ''}/>"\<close>:
  \<open>+\<close> raises when a true \<open>next_token\<close> is not a string.\<close>

definition poll_data :: "json \<Rightarrow> py_exn + string" where
  "poll_data next_token =
     (if truthy next_token then
        (case next_token of
           JStr s \<Rightarrow> Inr (''<taxii_poll_request_xml'' @ ('' next='' @ s) @ ''/>'')
         | _ \<Rightarrow> Inl TypeError)
      else Inr (''<taxii_poll_request_xml'' @ '''' @ ''/>''))"

definition poll_request :: "config \<Rightarrow> string \<Rightarrow> request" where
  "poll_request cfg data =
     \<lparr>rq_method = POST,
      rq_url = [Val (JStr (TAXII_SERVER_URL cfg)), Lit ''/collections/'',
                Val (JStr (TAXII_COLLECTION cfg)), Lit ''/poll''],
      rq_headers = [(''Content-Type'', [Lit ''application/xml''])],
      rq_auth = Some (TAXII_USERNAME cfg, TAXII_PASSWORD cfg),
      rq_body = RawData data\<rparr>"

text \<open>After the comprehension: \<open>all_iocs.extend(iocs)\<close> (in the loop state), the
  log line and \<open>rate_limit()\<close>.\<close>

definition page_retrieved :: "config \<Rightarrow> string list \<Rightarrow> world \<Rightarrow> world" where
  "page_retrieved cfg iocs w =
     rate_limit cfg
       (log [Lit ''Retrieved '', Val (JInt (int (length iocs))), Lit '' IOCs from TAXII.''] w)"

text \<open>The \<open>while True\<close> loop, from the state \<open>next_token\<close>, \<open>all_iocs\<close>.\<close>

partial_function (option) poll_loop ::
  "config \<Rightarrow> json \<Rightarrow> string list \<Rightarrow> world \<Rightarrow> ((py_exn + string list) \<times> world) option" where
  "poll_loop cfg next_token all_iocs w =
     (case poll_data next_token of
        Inl e \<Rightarrow> Some (Inl e, w)
      | Inr data \<Rightarrow>
         (case requests_send (poll_request cfg data) w of
            (Inl e, w1) \<Rightarrow> Some (Inl e, w1)
          | (Inr response, w1) \<Rightarrow>
              if status_code response \<noteq> 200 then
                Some (Inr all_iocs,
                      log [Lit ''Failed to poll TAXII server: '',
                           Val (JInt (status_code response)), Lit '' '',
                           Val (JStr (response_text response))] w1)
              else
                (case response_json response of
                   Inl e \<Rightarrow> Some (Inl e, w1)
                 | Inr taxii_data \<Rightarrow>
                    (case page_iocs taxii_data of
                       Inl e \<Rightarrow> Some (Inl e, w1)
                     | Inr iocs \<Rightarrow>
                        (case dict_get taxii_data ''next_token'' JNull of
                           Inl e \<Rightarrow> Some (Inl e, page_retrieved cfg iocs w1)
                         | Inr next_token' \<Rightarrow>
                            if \<not> truthy next_token' then
                              Some (Inr (all_iocs @ iocs), page_retrieved cfg iocs w1)
                            else
                              poll_loop cfg next_token' (all_iocs @ iocs)
                                (page_retrieved cfg iocs w1))))))"

definition poll_taxii_server :: "config \<Rightarrow> world \<Rightarrow> ((py_exn + string list) \<times> world) option" where
  "poll_taxii_server cfg w =
     poll_loop cfg JNull []
       (log [Lit ''Polling TAXII server at '', Val (JStr (TAXII_SERVER_URL cfg)),
             Lit '' for collection '', Val (JStr (TAXII_COLLECTION cfg)), Lit ''...''] w)"

subsection \<open>\<open>check_ioc_exists_paginated\<close>\<close>

definition query_url :: "string \<Rightarrow> fstring" where
  "query_url ioc_value =
     [Lit ''https://api.crowdstrike.com/indicators/queries/iocs/v1?value='', Val (JStr ioc_value)]"

definition query_request :: "string \<Rightarrow> json \<Rightarrow> json \<Rightarrow> request" where
  "query_request ioc_value access_token next_token =
     \<lparr>rq_method = GET,
      rq_url = (if truthy next_token
                then query_url ioc_value @ [Lit ''&next_token='', Val next_token]
                else query_url ioc_value),
      rq_headers = [(''Authorization'', [Lit ''Bearer '', Val access_token])],
      rq_auth = None,
      rq_body = NoBody\<rparr>"

text \<open>\<open>response.json().get('meta', {}).get('pagination', {}).get('next_token')\<close>\<close>

definition query_next_token :: "json \<Rightarrow> py_exn + json" where
  "query_next_token doc =
     (case dict_get doc ''meta'' (JObj []) of
        Inl e \<Rightarrow> Inl e
      | Inr meta \<Rightarrow>
         (case dict_get meta ''pagination'' (JObj []) of
            Inl e \<Rightarrow> Inl e
          | Inr pagination \<Rightarrow> dict_get pagination ''next_token'' JNull))"

text \<open>The \<open>while True\<close> loop, from the state \<open>next_token\<close>.\<close>

partial_function (option) check_loop ::
  "string \<Rightarrow> json \<Rightarrow> json \<Rightarrow> world \<Rightarrow> ((py_exn + bool) \<times> world) option" where
  "check_loop ioc_value access_token next_token w =
     (case requests_send (query_request ioc_value access_token next_token) w of
        (Inl e, w1) \<Rightarrow> Some (Inl e, w1)
      | (Inr response, w1) \<Rightarrow>
          if status_code response \<noteq> 200 then
            Some (Inr False,
                  log [Lit ''Failed to check IOC: '', Val (JInt (status_code response)),
                       Lit '' '', Val (JStr (response_text response))] w1)
          else
            (case response_json response of
               Inl e \<Rightarrow> Some (Inl e, w1)
             | Inr doc \<Rightarrow>
                (case dict_get doc ''resources'' JNull of
                   Inl e \<Rightarrow> Some (Inl e, w1)
                 | Inr resources \<Rightarrow>
                    if truthy resources then Some (Inr True, w1)
                    else
                      (case query_next_token doc of
                         Inl e \<Rightarrow> Some (Inl e, w1)
                       | Inr next_token' \<Rightarrow>
                          if \<not> truthy next_token' then Some (Inr False, w1)
                          else check_loop ioc_value access_token next_token' w1))))"

definition check_ioc_exists_paginated ::
  "string \<Rightarrow> json \<Rightarrow> world \<Rightarrow> ((py_exn + bool) \<times> world) option" where
  "check_ioc_exists_paginated ioc_value access_token w =
     check_loop ioc_value access_token JNull w"

subsection \<open>\<open>calculate_expiration_date\<close>\<close>

text \<open>
  A \<open>datetime\<close> is its number of microseconds since 1970-01-01T00:00:00; the largest
  one is 9999-12-31T23:59:59.999999.  \<open>utcnow\<close> and the addition of a \<open>timedelta\<close>
  raise beyond it.
\<close>

definition datetime_max :: nat where
  "datetime_max = 253402300799999999"

definition utcnow :: "world \<Rightarrow> (py_exn + nat) \<times> world" where
  "utcnow w =
     (if clock w (clock_reads w) \<le> datetime_max then Inr (clock w (clock_reads w))
      else Inl ValueError,
      w\<lparr>clock_reads := Suc (clock_reads w)\<rparr>)"

definition timedelta_days :: "nat \<Rightarrow> nat" where
  "timedelta_days days = days * 86400 * 1000000"

definition datetime_add :: "nat \<Rightarrow> nat \<Rightarrow> py_exn + nat" where
  "datetime_add t delta = (if t + delta \<le> datetime_max then Inr (t + delta) else Inl OverflowError)"

text \<open>Year, month and day of the day that is \<open>days\<close> days after 1970-01-01, in the
  proleptic Gregorian calendar (eras of 400 years that start on 1 March).\<close>

definition civil_from_days :: "nat \<Rightarrow> nat \<times> nat \<times> nat" where
  "civil_from_days days =
     (let z = days + 719468;
          era = z div 146097;
          doe = z mod 146097;
          yoe = (doe - doe div 1460 + doe div 36524 - doe div 146096) div 365;
          doy = doe - (365 * yoe + yoe div 4 - yoe div 100);
          mp = (5 * doy + 2) div 153;
          d = doy - (153 * mp + 2) div 5 + 1;
          m = (if mp < 10 then mp + 3 else mp - 9);
          y = yoe + era * 400 + (if m \<le> 2 then 1 else 0)
      in (y, m, d))"

definition digit :: "nat \<Rightarrow> char" where
  "digit d = ''0123456789'' ! (d mod 10)"

definition pad2 :: "nat \<Rightarrow> string" where
  "pad2 n = [digit (n div 10), digit n]"

definition pad4 :: "nat \<Rightarrow> string" where
  "pad4 n = [digit (n div 1000), digit (n div 100), digit (n div 10), digit n]"

text \<open>\<open>strftime('%Y-%m-%dT%H:%M:%SZ')\<close>: the microseconds are dropped.\<close>

definition strftime_iso :: "nat \<Rightarrow> string" where
  "strftime_iso t =
     (let secs = t div 1000000;
          sod = secs mod 86400
      in case civil_from_days (secs div 86400) of
           (y, m, d) \<Rightarrow>
             pad4 y @ ''-'' @ pad2 m @ ''-'' @ pad2 d @ ''T'' @ pad2 (sod div 3600) @ '':'' @
             pad2 (sod div 60 mod 60) @ '':'' @ pad2 (sod mod 60) @ ''Z'')"

definition calculate_expiration_date :: "world \<Rightarrow> (py_exn + string) \<times> world" where
  "calculate_expiration_date w =
     (case utcnow w of
        (Inl e, w1) \<Rightarrow> (Inl e, w1)
      | (Inr now, w1) \<Rightarrow>
         (case datetime_add now (timedelta_days 90) of
            Inl e \<Rightarrow> (Inl e, w1)
          | Inr expiration_date \<Rightarrow> (Inr (strftime_iso expiration_date), w1)))"

subsection \<open>\<open>push_iocs_to_crowdstrike\<close>\<close>

definition ioc_payload :: "string \<Rightarrow> string \<Rightarrow> json" where
  "ioc_payload ioc expiration_date =
     JObj [(''type'', JStr ''domain''), (''value'', JStr ioc), (''action'', JStr ''detect''),
           (''valid_until'', JStr expiration_date), (''source'', JStr ''TAXII Import'')]"

definition entities_request :: "http_method \<Rightarrow> json \<Rightarrow> json \<Rightarrow> request" where
  "entities_request m access_token payload =
     \<lparr>rq_method = m,
      rq_url = [Lit ''https://api.crowdstrike.com/indicators/entities/iocs/v1''],
      rq_headers = [(''Authorization'', [Lit ''Bearer '', Val access_token]),
                    (''Content-Type'', [Lit ''application/json''])],
      rq_auth = None,
      rq_body = JsonBody payload\<rparr>"

text \<open>The end of the loop body, from the outcome of the PATCH or POST: the status
  check and \<open>rate_limit()\<close>.\<close>

definition push_finish :: "config \<Rightarrow> string \<Rightarrow> (py_exn + response) \<times> world \<Rightarrow> (py_exn + unit) \<times> world" where
  "push_finish cfg ioc r =
     (case r of
        (Inl e, w) \<Rightarrow> (Inl e, w)
      | (Inr response, w) \<Rightarrow>
          (Inr (),
           rate_limit cfg
             (if status_code response \<noteq> 200 \<and> status_code response \<noteq> 201
              then log [Lit ''Failed to push/update IOC '', Val (JStr ioc), Lit '': '',
                        Val (JInt (status_code response)), Lit '' '',
                        Val (JStr (response_text response))] w
              else w)))"

text \<open>The body of \<open>for ioc in iocs\<close>.\<close>

definition push_ioc :: "config \<Rightarrow> json \<Rightarrow> string \<Rightarrow> world \<Rightarrow> ((py_exn + unit) \<times> world) option" where
  "push_ioc cfg access_token ioc w =
     (case calculate_expiration_date (log [Lit ''Processing IOC: '', Val (JStr ioc)] w) of
        (Inl e, w1) \<Rightarrow> Some (Inl e, w1)
      | (Inr expiration_date, w1) \<Rightarrow>
         (case check_ioc_exists_paginated ioc access_token w1 of
            None \<Rightarrow> None
          | Some (Inl e, w2) \<Rightarrow> Some (Inl e, w2)
          | Some (Inr True, w2) \<Rightarrow>
              Some (push_finish cfg ioc
                (requests_send
                   (entities_request PATCH access_token (ioc_payload ioc expiration_date))
                   (log [Lit ''IOC '', Val (JStr ioc), Lit '' already exists. Updating...''] w2)))
          | Some (Inr False, w2) \<Rightarrow>
              Some (push_finish cfg ioc
                (requests_send
                   (entities_request POST access_token (ioc_payload ioc expiration_date))
                   (log [Lit ''IOC '', Val (JStr ioc), Lit '' is new. Adding...''] w2)))))"

fun push_loop :: "config \<Rightarrow> json \<Rightarrow> string list \<Rightarrow> world \<Rightarrow> ((py_exn + unit) \<times> world) option" where
  "push_loop cfg access_token [] w = Some (Inr (), w)"
| "push_loop cfg access_token (ioc # iocs) w =
     (case push_ioc cfg access_token ioc w of
        None \<Rightarrow> None
      | Some (Inl e, w') \<Rightarrow> Some (Inl e, w')
      | Some (Inr u, w') \<Rightarrow> push_loop cfg access_token iocs w')"

definition push_iocs_to_crowdstrike ::
  "config \<Rightarrow> string list \<Rightarrow> json \<Rightarrow> world \<Rightarrow> ((py_exn + unit) \<times> world) option" where
  "push_iocs_to_crowdstrike cfg iocs access_token w =
     push_loop cfg access_token iocs
       (log [Lit ''Pushing or updating IOCs in CrowdStrike Falcon...''] w)"

subsection \<open>\<open>main\<close>\<close>

definition main :: "config \<Rightarrow> world \<Rightarrow> world option" where
  "main cfg w =
     (case retry (returns (get_crowdstrike_token cfg))
             (log [Lit ''TAXII to CrowdStrike IOC ingestion started.''] w) of
        None \<Rightarrow> None
      | Some (None, w1) \<Rightarrow> Some (log [Lit ''Failed to obtain access token. Exiting.''] w1)
      | Some (Some access_token, w1) \<Rightarrow>
          if \<not> truthy access_token then
            Some (log [Lit ''Failed to obtain access token. Exiting.''] w1)
          else
            (case retry (poll_taxii_server cfg) w1 of
               None \<Rightarrow> None
             | Some (Some (ioc # iocs), w2) \<Rightarrow>
                (case retry (push_iocs_to_crowdstrike cfg (ioc # iocs) access_token) w2 of
                   None \<Rightarrow> None
                 | Some (r, w3) \<Rightarrow>
                     Some (log [Lit ''IOC ingestion and management process complete.''] w3))
             | Some (r, w2) \<Rightarrow>
                 Some (log [Lit ''IOC ingestion and management process complete.''] w2)))"

section \<open>The token request of \<open>crowdstrike_ioc_ingestor.py\<close>\<close>

text \<open>The older script's \<open>get_crowdstrike_token(client_id, client_secret)\<close>: it prints
  instead of logging and reads the field with \<open>response.json()['access_token']\<close>.\<close>

definition ingestor_get_crowdstrike_token ::
  "string \<Rightarrow> string \<Rightarrow> world \<Rightarrow> (py_exn + json) \<times> world" where
  "ingestor_get_crowdstrike_token client_id client_secret w =
     (case requests_send
             \<lparr>rq_method = POST, rq_url = [Lit ''https://api.crowdstrike.com/oauth2/token''],
              rq_headers = [], rq_auth = None,
              rq_body = FormData [(''client_id'', client_id), (''client_secret'', client_secret)]\<rparr>
             w of
        (Inl e, w1) \<Rightarrow> (Inl e, w1)
      | (Inr response, w1) \<Rightarrow>
          if status_code response = 200 then
            (case response_json response of
               Inl e \<Rightarrow> (Inl e, w1)
             | Inr doc \<Rightarrow>
                (case getitem doc ''access_token'' of
                   Inl e \<Rightarrow> (Inl e, w1)
                 | Inr access_token \<Rightarrow> (Inr access_token, w1)))
          else
            (Inr JNull,
             emit (Print [Lit ''Error fetching token: '', Val (JInt (status_code response)),
                          Lit '' '', Val (JStr (response_text response))]) w1))"

section \<open>Pages of the feed\<close>

text \<open>
  What the theorems assume of the feed.  \<open>page_of objs next_token answer\<close>: the answer
  to a poll request is a response with status 200 whose document has the list \<open>objs\<close>
  under \<open>objects\<close> and \<open>next_token\<close> under \<open>next_token\<close> (\<open>None\<close> when absent), read as
  the script reads them.  \<open>stix_object\<close>: an object has a \<open>type\<close>, and an indicator has a
  \<open>pattern\<close> string with a single quote in it.  \<open>cursor\<close>: a continuation token is a
  non-empty string.
\<close>

definition page_of :: "json list \<Rightarrow> json \<Rightarrow> py_exn + response \<Rightarrow> bool" where
  "page_of objs next_token answer =
     (case answer of
        Inl e \<Rightarrow> False
      | Inr response \<Rightarrow>
          status_code response = 200 \<and>
          (case json_body response of
             None \<Rightarrow> False
           | Some doc \<Rightarrow>
               dict_get doc ''objects'' (JList []) = Inr (JList objs) \<and>
               dict_get doc ''next_token'' JNull = Inr next_token))"

definition is_indicator :: "json \<Rightarrow> bool" where
  "is_indicator obj = (getitem obj ''type'' = Inr (JStr ''indicator''))"

definition stix_object :: "json \<Rightarrow> bool" where
  "stix_object obj =
     (case getitem obj ''type'' of
        Inl e \<Rightarrow> False
      | Inr ty \<Rightarrow>
          ty = JStr ''indicator'' \<longrightarrow>
          (case pattern_value obj of Inl e \<Rightarrow> False | Inr v \<Rightarrow> True))"

definition cursor :: "json \<Rightarrow> bool" where
  "cursor next_token = (case next_token of JStr c \<Rightarrow> c \<noteq> [] | _ \<Rightarrow> False)"


section \<open>Observations\<close>

text \<open>What a run returned, the trace it left, and the pauses and the requests of a
  trace, in order.\<close>

definition result_of :: "('a \<times> world) option \<Rightarrow> 'a option" where
  "result_of r = map_option fst r"

definition trace_of :: "('a \<times> world) option \<Rightarrow> event list" where
  "trace_of r = (case r of None \<Rightarrow> [] | Some (v, w) \<Rightarrow> trace w)"

definition sleeps :: "event list \<Rightarrow> nat list" where
  "sleeps es = [d. Sleep d \<leftarrow> es]"

definition requests :: "event list \<Rightarrow> request list" where
  "requests es = [rq. Http rq \<leftarrow> es]"


text \<open>The requests of a trace that go to the indicator store, that is to a URL under
  \<open>https://api.crowdstrike.com/indicators\<close>: the existence queries, the creates and the
  updates.  The token request goes to \<open>/oauth2/token\<close> and is not one of them.\<close>

definition store_request :: "request \<Rightarrow> bool" where
  "store_request rq =
     (case rq_url rq of
        Lit u # parts \<Rightarrow> take 38 u = ''https://api.crowdstrike.com/indicators''
      | _ \<Rightarrow> False)"

definition store_requests :: "event list \<Rightarrow> request list" where
  "store_requests es = filter store_request (requests es)"

text \<open>The trace that a run of \<open>main\<close> left.\<close>

definition final_trace :: "world option \<Rightarrow> event list" where
  "final_trace r = (case r of None \<Rightarrow> [] | Some w \<Rightarrow> trace w)"

section \<open>Example inputs\<close>

text \<open>The configuration with the script's default values, a server that answers the
  calls with the listed outcomes (and refuses any further call), and a clock that stands
  at 2024-10-10T00:00:00.\<close>

definition default_config :: config where
  "default_config =
     \<lparr>CLIENT_ID = ''your_client_id'', CLIENT_SECRET = ''your_client_secret'',
      TAXII_SERVER_URL = ''https://taxii.server.url'', TAXII_USERNAME = ''your_taxii_username'',
      TAXII_PASSWORD = ''your_taxii_password'', TAXII_COLLECTION = ''your_taxii_collection'',
      RATE_LIMIT_DELAY = 2\<rparr>"

definition answers :: "(py_exn + response) list \<Rightarrow> nat \<Rightarrow> py_exn + response" where
  "answers rs n = (if n < length rs then rs ! n else Inl RequestException)"

definition start_world :: "(py_exn + response) list \<Rightarrow> world" where
  "start_world rs =
     \<lparr>net = answers rs, clock = (\<lambda>n. 1728518400000000), http_calls = 0, clock_reads = 0,
      trace = []\<rparr>"

definition ok_response :: "json \<Rightarrow> py_exn + response" where
  "ok_response doc = Inr \<lparr>status_code = 200, response_text = '''', json_body = Some doc\<rparr>"

definition error_response :: "int \<Rightarrow> string \<Rightarrow> py_exn + response" where
  "error_response code body = Inr \<lparr>status_code = code, response_text = body, json_body = None\<rparr>"


definition refusing_server :: world where
  "refusing_server =
     start_world [error_response 401 ''denied'',
                  ok_response (JObj [(''access_token'', JStr ''tok'')])]"

definition flaky_server :: world where
  "flaky_server =
     start_world [Inl RequestException, Inl RequestException,
                  ok_response (JObj [(''access_token'', JStr ''tok'')])]"

definition dead_server :: world where
  "dead_server = start_world []"

definition tokenless_server :: world where
  "tokenless_server = start_world [ok_response (JObj [])]"

definition granting_server :: world where
  "granting_server = start_world [ok_response (JObj [(''access_token'', JStr ''tok'')])]"






definition empty_feed :: world where
  "empty_feed =
     start_world [ok_response (JObj [(''access_token'', JStr ''tok'')]),
                  ok_response (JObj [(''objects'', JList [JObj [(''type'', JStr ''malware'')]])])]"

section \<open>Splitting and searching strings\<close>

lemma split_from_no_sep: "c \<notin> set s \<Longrightarrow> split_from c piece s = [piece @ s]"
  by (induction s arbitrary: piece) auto

lemma split_from_sep:
  "c \<notin> set pre \<Longrightarrow> split_from c piece (pre @ c # rest) = (piece @ pre) # split_from c [] rest"
  by (induction pre arbitrary: piece) auto

lemma split_no_quote: "quote \<notin> set s \<Longrightarrow> split quote s = [s]"
  by (simp add: split_def split_from_no_sep)

lemma split_one_quote:
  "quote \<notin> set pre \<Longrightarrow> quote \<notin> set rest \<Longrightarrow> split quote (pre @ quote # rest) = [pre, rest]"
  by (simp add: split_def split_from_sep split_from_no_sep)

lemma split_two_quotes:
  "quote \<notin> set pre \<Longrightarrow> quote \<notin> set v \<Longrightarrow>
   split quote (pre @ quote # v @ quote # post) = pre # v # split_from quote [] post"
  by (simp add: split_def split_from_sep)

lemma split_quote_1_none: "quote \<notin> set s \<Longrightarrow> split_quote_1 (JStr s) = Inl IndexError"
  by (simp add: split_no_quote)

lemma split_quote_1_one:
  "quote \<notin> set pre \<Longrightarrow> quote \<notin> set rest \<Longrightarrow> split_quote_1 (JStr (pre @ quote # rest)) = Inr rest"
  by (simp add: split_one_quote)

lemma split_quote_1_two:
  "quote \<notin> set pre \<Longrightarrow> quote \<notin> set v \<Longrightarrow>
   split_quote_1 (JStr (pre @ quote # v @ quote # post)) = Inr v"
  by (simp add: split_two_quotes)

lemma str_in_iff: "str_in sub s \<longleftrightarrow> (\<exists>a b. s = a @ sub @ b)"
proof (induction s)
  case Nil
  then show ?case by auto
next
  case (Cons c cs)
  have "take (length sub) (c # cs) = sub \<longleftrightarrow> (\<exists>b. c # cs = sub @ b)"
    by (metis append_eq_conv_conj append_take_drop_id)
  moreover have "(\<exists>a b. c # cs = a @ sub @ b) \<longleftrightarrow> (\<exists>b. c # cs = sub @ b) \<or> (\<exists>a b. cs = a @ sub @ b)"
  proof
    assume "\<exists>a b. c # cs = a @ sub @ b"
    then obtain a b where ab: "c # cs = a @ sub @ b" by blast
    show "(\<exists>b. c # cs = sub @ b) \<or> (\<exists>a b. cs = a @ sub @ b)"
    proof (cases a)
      case Nil
      with ab show ?thesis by auto
    next
      case (Cons x a')
      with ab have "cs = a' @ sub @ b" by simp
      then show ?thesis by blast
    qed
  next
    assume "(\<exists>b. c # cs = sub @ b) \<or> (\<exists>a b. cs = a @ sub @ b)"
    then show "\<exists>a b. c # cs = a @ sub @ b"
    proof
      assume "\<exists>b. c # cs = sub @ b"
      then obtain b where "c # cs = [] @ sub @ b" by auto
      then show ?thesis by blast
    next
      assume "\<exists>a b. cs = a @ sub @ b"
      then obtain a b where "c # cs = (c # a) @ sub @ b" by auto
      then show ?thesis by blast
    qed
  qed
  ultimately show ?case using Cons.IH by simp
qed

lemma transform_keyword:
  assumes "map_of kvs ''pattern'' = Some (JStr p)"
    and "str_in ''domain-name'' p \<or> str_in ''ipv4-addr'' p \<or> str_in ''file:hashes'' p"
  shows "transform_stix_to_ioc (JObj kvs) =
    transform_classified
      (if str_in ''domain-name'' p then ''domain''
       else if str_in ''ipv4-addr'' p then ''ipv4'' else ''sha256'') (JStr p)"
  using assms by (auto simp: transform_stix_to_ioc_def)

section \<open>Effects of the basic operations\<close>

declare retry_loop.simps [simp del]

lemma emit_simps:
  "trace (emit e w) = trace w @ [e]" "net (emit e w) = net w" "clock (emit e w) = clock w"
  "http_calls (emit e w) = http_calls w" "clock_reads (emit e w) = clock_reads w"
  by (simp_all add: emit_def)

lemma log_simps:
  "trace (log m w) = trace w @ [LogInfo m, Print m]" "net (log m w) = net w"
  "clock (log m w) = clock w" "http_calls (log m w) = http_calls w"
  "clock_reads (log m w) = clock_reads w"
  by (simp_all add: log_def emit_simps)

lemma time_sleep_simps:
  "trace (time_sleep d w) = trace w @ [Sleep d]" "net (time_sleep d w) = net w"
  "clock (time_sleep d w) = clock w" "http_calls (time_sleep d w) = http_calls w"
  "clock_reads (time_sleep d w) = clock_reads w"
  by (simp_all add: time_sleep_def emit_simps)

lemma requests_send_simps:
  "fst (requests_send rq w) = net w (http_calls w)"
  "trace (snd (requests_send rq w)) = trace w @ [Http rq]"
  "net (snd (requests_send rq w)) = net w" "clock (snd (requests_send rq w)) = clock w"
  "http_calls (snd (requests_send rq w)) = Suc (http_calls w)"
  "clock_reads (snd (requests_send rq w)) = clock_reads w"
  by (simp_all add: requests_send_def emit_simps)

lemma backoff_simps:
  "trace (backoff n delay w) =
     trace w @
     [LogInfo [Lit ''Command failed. Attempt '', Val (JInt (int n)), Lit ''/'',
               Val (JInt (int MAX_RETRIES)), Lit ''. Retrying in '',
               Val (JInt (int delay)), Lit '' seconds...''],
      Print [Lit ''Command failed. Attempt '', Val (JInt (int n)), Lit ''/'',
             Val (JInt (int MAX_RETRIES)), Lit ''. Retrying in '',
             Val (JInt (int delay)), Lit '' seconds...''],
      Sleep delay]"
  "net (backoff n delay w) = net w" "clock (backoff n delay w) = clock w"
  "http_calls (backoff n delay w) = http_calls w"
  "clock_reads (backoff n delay w) = clock_reads w"
  by (simp_all add: backoff_def time_sleep_simps log_simps)

lemma rate_limit_simps:
  "trace (rate_limit cfg w) =
     trace w @
     [LogInfo [Lit ''Rate limiting: Waiting for '', Val (JInt (int (RATE_LIMIT_DELAY cfg))),
               Lit '' seconds before the next request...''],
      Print [Lit ''Rate limiting: Waiting for '', Val (JInt (int (RATE_LIMIT_DELAY cfg))),
             Lit '' seconds before the next request...''],
      Sleep (RATE_LIMIT_DELAY cfg)]"
  "net (rate_limit cfg w) = net w" "clock (rate_limit cfg w) = clock w"
  "http_calls (rate_limit cfg w) = http_calls w"
  "clock_reads (rate_limit cfg w) = clock_reads w"
  by (simp_all add: rate_limit_def time_sleep_simps log_simps)

lemma retry_loop_returns:
  "n \<le> MAX_RETRIES \<Longrightarrow> func w = Some (Inr v, w') \<Longrightarrow>
   retry_loop func n delay w = Some (Some v, w')"
  by (subst retry_loop.simps) simp

lemma retry_loop_raises:
  "n \<le> MAX_RETRIES \<Longrightarrow> func w = Some (Inl e, w') \<Longrightarrow>
   retry_loop func n delay w = retry_loop func (n + 1) (delay * 2) (backoff n delay w')"
  by (subst retry_loop.simps) simp

lemma retry_loop_exhausted:
  "MAX_RETRIES < n \<Longrightarrow>
   retry_loop func n delay w =
     Some (None, log [Lit ''The command has failed after maximum retry attempts.''] w)"
  by (subst retry_loop.simps) simp

lemma retry_loop_diverges:
  "n \<le> MAX_RETRIES \<Longrightarrow> func w = None \<Longrightarrow> retry_loop func n delay w = None"
  by (subst retry_loop.simps) simp

lemma get_token_raise:
  "net w (http_calls w) = Inl e \<Longrightarrow>
   get_crowdstrike_token cfg w =
     (Inl e, snd (requests_send (token_request cfg)
                   (log [Lit ''Fetching CrowdStrike OAuth2 token...''] w)))"
  by (simp add: get_crowdstrike_token_def requests_send_def log_simps split: prod.splits)

lemma get_token_refused:
  "net w (http_calls w) = Inr response \<Longrightarrow> status_code response \<noteq> 200 \<Longrightarrow>
   get_crowdstrike_token cfg w =
     (Inr JNull,
      log [Lit ''Failed to get OAuth2 token: '', Val (JInt (status_code response)),
           Lit '' '', Val (JStr (response_text response))]
        (snd (requests_send (token_request cfg)
               (log [Lit ''Fetching CrowdStrike OAuth2 token...''] w))))"
  by (simp add: get_crowdstrike_token_def requests_send_def log_simps split: prod.splits)

lemma get_token_ok:
  "net w (http_calls w) = Inr response \<Longrightarrow> status_code response = 200 \<Longrightarrow>
   json_body response = Some (JObj doc) \<Longrightarrow>
   get_crowdstrike_token cfg w =
     (Inr (case map_of doc ''access_token'' of None \<Rightarrow> JNull | Some v \<Rightarrow> v),
      log [Lit ''CrowdStrike OAuth2 token acquired.'']
        (snd (requests_send (token_request cfg)
               (log [Lit ''Fetching CrowdStrike OAuth2 token...''] w))))"
  by (simp add: get_crowdstrike_token_def requests_send_def log_simps response_json_def
      split: prod.splits)

lemma answers_simps:
  "answers (r # rs) 0 = r" "answers (r # rs) (Suc n) = answers rs n"
  "answers [] n = Inl RequestException"
  by (simp_all add: answers_def)

lemma start_world_simps:
  "net (start_world rs) = answers rs" "http_calls (start_world rs) = 0"
  "clock_reads (start_world rs) = 0" "trace (start_world rs) = []"
  "clock (start_world rs) n = 1728518400000000"
  by (simp_all add: start_world_def)

lemma get_token_frame:
  "net (snd (get_crowdstrike_token cfg w)) = net w"
  "http_calls (snd (get_crowdstrike_token cfg w)) = Suc (http_calls w)"
  by (simp_all add: get_crowdstrike_token_def requests_send_def log_simps emit_simps
      split: prod.splits sum.splits)

lemma get_token_raise_sleeps:
  "net w (http_calls w) = Inl e \<Longrightarrow>
   sleeps (trace (snd (get_crowdstrike_token cfg w))) = sleeps (trace w)"
  by (simp add: get_token_raise requests_send_simps log_simps sleeps_def)

lemma get_token_ok_sleeps:
  "net w (http_calls w) = Inr response \<Longrightarrow> status_code response = 200 \<Longrightarrow>
   json_body response = Some (JObj doc) \<Longrightarrow>
   sleeps (trace (snd (get_crowdstrike_token cfg w))) = sleeps (trace w)"
  by (simp add: get_token_ok requests_send_simps log_simps sleeps_def)

lemma sleeps_simps:
  "sleeps [] = []" "sleeps (trace (backoff n delay w)) = sleeps (trace w) @ [delay]"
  "sleeps (trace (log m w)) = sleeps (trace w)"
  by (simp_all add: sleeps_def backoff_simps log_simps)

lemma get_token_value:
  assumes "fst (get_crowdstrike_token cfg w) = Inr token" and "token \<noteq> JNull"
  shows "\<exists>response doc. net w (http_calls w) = Inr response \<and> status_code response = 200 \<and>
           json_body response = Some (JObj doc) \<and> map_of doc ''access_token'' = Some token"
proof (cases "net w (http_calls w)")
  case (Inl e)
  then show ?thesis using assms by (simp add: get_token_raise)
next
  case (Inr response)
  show ?thesis
  proof (cases "status_code response = 200")
    case False
    with Inr assms show ?thesis by (simp add: get_token_refused)
  next
    case True
    show ?thesis
    proof (cases "json_body response")
      case None
      with Inr True assms show ?thesis
        by (simp add: get_crowdstrike_token_def requests_send_def log_simps response_json_def)
    next
      case (Some j)
      show ?thesis
      proof (cases j)
        case (JObj doc)
        with Some Inr True assms show ?thesis
          by (auto simp: get_token_ok split: option.splits)
      qed (use Some Inr True assms in
          \<open>simp_all add: get_crowdstrike_token_def requests_send_def log_simps response_json_def\<close>)
    qed
  qed
qed

lemma ingestor_token_missing:
  "net w (http_calls w) = Inr response \<Longrightarrow> status_code response = 200 \<Longrightarrow>
   json_body response = Some (JObj doc) \<Longrightarrow> map_of doc ''access_token'' = None \<Longrightarrow>
   fst (ingestor_get_crowdstrike_token client_id client_secret w) = Inl KeyError"
  by (simp add: ingestor_get_crowdstrike_token_def requests_send_def response_json_def)

section \<open>The polling loop\<close>

lemma page_retrieved_simps:
  "net (page_retrieved cfg iocs w) = net w" "clock (page_retrieved cfg iocs w) = clock w"
  "http_calls (page_retrieved cfg iocs w) = http_calls w"
  "clock_reads (page_retrieved cfg iocs w) = clock_reads w"
  "requests (trace (page_retrieved cfg iocs w)) = requests (trace w)"
  by (simp_all add: page_retrieved_def rate_limit_simps log_simps requests_def)

lemma requests_sent:
  "requests (trace (snd (requests_send rq w))) = requests (trace w) @ [rq]"
  by (simp add: requests_send_simps requests_def)

lemma requests_log: "requests (trace (log m w)) = requests (trace w)"
  by (simp add: log_simps requests_def)

lemma comprehend_stix:
  "\<forall>obj\<in>set objs. stix_object obj \<Longrightarrow>
   \<exists>vs. comprehend_iocs objs = Inr vs \<and>
        map Inr vs = map pattern_value (filter is_indicator objs)"
proof (induction objs)
  case Nil
  then show ?case by simp
next
  case (Cons obj objs)
  then obtain vs where vs: "comprehend_iocs objs = Inr vs"
      "map Inr vs = map pattern_value (filter is_indicator objs)"
    by auto
  from Cons.prems have so: "stix_object obj" by simp
  show ?case
  proof (cases "is_indicator obj")
    case True
    then have ty: "getitem obj ''type'' = Inr (JStr ''indicator'')"
      by (simp add: is_indicator_def)
    with so obtain v where v: "pattern_value obj = Inr v"
      by (auto simp: stix_object_def split: sum.splits)
    have "comprehend_iocs (obj # objs) = Inr (v # vs)"
      by (simp add: ty v vs(1))
    moreover have "map Inr (v # vs) = map pattern_value (filter is_indicator (obj # objs))"
      using True v vs(2) by simp
    ultimately show ?thesis by blast
  next
    case False
    with so obtain ty where ty: "getitem obj ''type'' = Inr ty" "ty \<noteq> JStr ''indicator''"
      by (auto simp: stix_object_def is_indicator_def split: sum.splits)
    have "comprehend_iocs (obj # objs) = Inr vs"
      by (simp add: ty vs(1))
    moreover have "map Inr vs = map pattern_value (filter is_indicator (obj # objs))"
      using False vs(2) by simp
    ultimately show ?thesis by blast
  qed
qed

lemma cursor_poll_data:
  "cursor tok \<or> \<not> truthy tok \<Longrightarrow> \<exists>data. poll_data tok = Inr data"
  by (cases tok) (auto simp: poll_data_def cursor_def)

lemma cursor_truthy: "cursor tok \<Longrightarrow> truthy tok"
  by (cases tok) (auto simp: cursor_def)

text \<open>One iteration on a successful page.\<close>

lemma poll_loop_page:
  assumes page: "page_of objs next_token (net w (http_calls w))"
    and objs: "\<forall>obj\<in>set objs. stix_object obj"
    and tok: "cursor tok \<or> \<not> truthy tok"
  shows "\<exists>w' vs. net w' = net w \<and> http_calls w' = Suc (http_calls w) \<and>
           length (requests (trace w')) = Suc (length (requests (trace w))) \<and>
           map Inr vs = map pattern_value (filter is_indicator objs) \<and>
           poll_loop cfg tok all_iocs w =
             (if truthy next_token then poll_loop cfg next_token (all_iocs @ vs) w'
              else Some (Inr (all_iocs @ vs), w'))"
proof -
  from tok obtain data where data: "poll_data tok = Inr data"
    using cursor_poll_data by blast
  from page obtain response doc where r: "net w (http_calls w) = Inr response"
    "status_code response = 200" "json_body response = Some doc"
    "dict_get doc ''objects'' (JList []) = Inr (JList objs)"
    "dict_get doc ''next_token'' JNull = Inr next_token"
    by (auto simp: page_of_def split: sum.splits option.splits)
  from comprehend_stix[OF objs] obtain vs where vs: "comprehend_iocs objs = Inr vs"
    "map Inr vs = map pattern_value (filter is_indicator objs)"
    by blast
  have iocs: "page_iocs doc = Inr vs"
    by (simp add: page_iocs_def r vs)
  let ?w' = "page_retrieved cfg vs (snd (requests_send (poll_request cfg data) w))"
  have "poll_loop cfg tok all_iocs w =
      (if truthy next_token then poll_loop cfg next_token (all_iocs @ vs) ?w'
       else Some (Inr (all_iocs @ vs), ?w'))"
    by (subst poll_loop.simps) (simp add: data requests_send_def r response_json_def iocs)
  moreover have "net ?w' = net w" "http_calls ?w' = Suc (http_calls w)"
    "length (requests (trace ?w')) = Suc (length (requests (trace w)))"
    by (simp_all add: page_retrieved_simps requests_send_simps(3,5) requests_sent)
  ultimately show ?thesis using vs(2) by blast
qed


text \<open>Successful pages that all carry a cursor: the loop is at the next request.\<close>

lemma poll_loop_pages:
  assumes "\<forall>i<length pages. page_of (fst (pages ! i)) (snd (pages ! i)) (net w (http_calls w + i))"
    and "\<forall>p\<in>set pages. \<forall>obj\<in>set (fst p). stix_object obj"
    and "\<forall>p\<in>set pages. cursor (snd p)"
    and "cursor tok \<or> \<not> truthy tok"
  shows "\<exists>w' vs. net w' = net w \<and> http_calls w' = http_calls w + length pages \<and>
           length (requests (trace w')) = length (requests (trace w)) + length pages \<and>
           map Inr vs =
             map pattern_value (concat (map (\<lambda>p. filter is_indicator (fst p)) pages)) \<and>
           poll_loop cfg tok all_iocs w =
             poll_loop cfg (last (tok # map snd pages)) (all_iocs @ vs) w'"
  using assms
proof (induction pages arbitrary: w tok all_iocs)
  case Nil
  show ?case
    by (rule exI[of _ w], rule exI[of _ "[]"]) simp
next
  case (Cons p pages)
  from Cons.prems(1) have p0: "page_of (fst p) (snd p) (net w (http_calls w))"
    by fastforce
  from Cons.prems(2) have o0: "\<forall>obj\<in>set (fst p). stix_object obj" by simp
  from Cons.prems(3) have c0: "cursor (snd p)" by simp
  from poll_loop_page[OF p0 o0 Cons.prems(4), of cfg all_iocs]
  obtain w1 vs1 where w1: "net w1 = net w" "http_calls w1 = Suc (http_calls w)"
      "length (requests (trace w1)) = Suc (length (requests (trace w)))"
      "map Inr vs1 = map pattern_value (filter is_indicator (fst p))"
      "poll_loop cfg tok all_iocs w = poll_loop cfg (snd p) (all_iocs @ vs1) w1"
    using cursor_truthy[OF c0] by auto
  have served: "\<forall>i<length pages.
      page_of (fst (pages ! i)) (snd (pages ! i)) (net w1 (http_calls w1 + i))"
  proof (intro allI impI)
    fix i assume "i < length pages"
    then have "page_of (fst ((p # pages) ! Suc i)) (snd ((p # pages) ! Suc i))
        (net w (http_calls w + Suc i))"
      using Cons.prems(1) by (metis Suc_less_eq length_Cons)
    then show "page_of (fst (pages ! i)) (snd (pages ! i)) (net w1 (http_calls w1 + i))"
      by (simp add: w1)
  qed
  from Cons.prems(2) have objs: "\<forall>p\<in>set pages. \<forall>obj\<in>set (fst p). stix_object obj" by simp
  from Cons.prems(3) have curs: "\<forall>p\<in>set pages. cursor (snd p)" by simp
  from c0 have c0': "cursor (snd p) \<or> \<not> truthy (snd p)" by simp
  from Cons.IH[OF served objs curs c0', of "all_iocs @ vs1"]
  obtain w' vs where w': "net w' = net w1" "http_calls w' = http_calls w1 + length pages"
      "length (requests (trace w')) = length (requests (trace w1)) + length pages"
      "map Inr vs = map pattern_value (concat (map (\<lambda>p. filter is_indicator (fst p)) pages))"
      "poll_loop cfg (snd p) (all_iocs @ vs1) w1 =
         poll_loop cfg (last (snd p # map snd pages)) ((all_iocs @ vs1) @ vs) w'"
    by blast
  have "net w' = net w" "http_calls w' = http_calls w + length (p # pages)"
    "length (requests (trace w')) = length (requests (trace w)) + length (p # pages)"
    using w1 w' by simp_all
  moreover have "map Inr (vs1 @ vs) =
      map pattern_value (concat (map (\<lambda>p. filter is_indicator (fst p)) (p # pages)))"
    using w1(4) w'(4) by simp
  moreover have "poll_loop cfg tok all_iocs w =
      poll_loop cfg (last (tok # map snd (p # pages))) (all_iocs @ (vs1 @ vs)) w'"
    using w1(5) w'(5) by simp
  ultimately show ?case by blast
qed

lemma last_cursor:
  "\<forall>p\<in>set pages. cursor (snd p) \<Longrightarrow> cursor tok \<or> \<not> truthy tok \<Longrightarrow>
   cursor (last (tok # map snd pages)) \<or> \<not> truthy (last (tok # map snd pages))"
  by (induction pages arbitrary: tok) auto

lemma poll_taxii_server_pages:
  assumes "pages \<noteq> []"
    and "\<forall>i<length pages. page_of (fst (pages ! i)) (snd (pages ! i)) (net w (http_calls w + i))"
    and "\<forall>p\<in>set pages. \<forall>obj\<in>set (fst p). stix_object obj"
    and "\<forall>p\<in>set (butlast pages). cursor (snd p)"
    and "\<not> truthy (snd (last pages))"
  shows "\<exists>vs w'. poll_taxii_server cfg w = Some (Inr vs, w') \<and>
           map Inr vs =
             map pattern_value (concat (map (\<lambda>p. filter is_indicator (fst p)) pages)) \<and>
           length (requests (trace w')) = length (requests (trace w)) + length pages"
proof -
  let ?w0 = "log [Lit ''Polling TAXII server at '', Val (JStr (TAXII_SERVER_URL cfg)),
       Lit '' for collection '', Val (JStr (TAXII_COLLECTION cfg)), Lit ''...''] w"
  let ?init = "butlast pages"
  have split: "pages = ?init @ [last pages]"
    using assms(1) by simp
  have pos: "0 < length pages"
    using assms(1) by simp
  have lt: "length ?init < length pages"
    using pos by simp
  have served: "\<forall>i<length ?init.
      page_of (fst (?init ! i)) (snd (?init ! i)) (net ?w0 (http_calls ?w0 + i))"
  proof (intro allI impI)
    fix i assume i: "i < length ?init"
    then have "i < length pages" by simp
    with assms(2) have "page_of (fst (pages ! i)) (snd (pages ! i)) (net w (http_calls w + i))"
      by blast
    with i show "page_of (fst (?init ! i)) (snd (?init ! i)) (net ?w0 (http_calls ?w0 + i))"
      by (simp add: nth_butlast log_simps)
  qed
  have objs: "\<forall>p\<in>set ?init. \<forall>obj\<in>set (fst p). stix_object obj"
    using assms(3) by (meson in_set_butlastD)
  have start: "cursor JNull \<or> \<not> truthy JNull" by simp
  from poll_loop_pages[OF served objs assms(4) start, of cfg "[]"]
  obtain w1 vs1 where w1: "net w1 = net ?w0" "http_calls w1 = http_calls ?w0 + length ?init"
      "length (requests (trace w1)) = length (requests (trace ?w0)) + length ?init"
      "map Inr vs1 =
         map pattern_value (concat (map (\<lambda>p. filter is_indicator (fst p)) ?init))"
      "poll_loop cfg JNull [] ?w0 = poll_loop cfg (last (JNull # map snd ?init)) ([] @ vs1) w1"
    by blast
  have tok: "cursor (last (JNull # map snd ?init)) \<or> \<not> truthy (last (JNull # map snd ?init))"
    by (rule last_cursor[OF assms(4) start])
  have "page_of (fst (pages ! length ?init)) (snd (pages ! length ?init))
      (net w (http_calls w + length ?init))"
    using assms(2) lt by blast
  moreover have "pages ! length ?init = last pages"
    using assms(1) by (simp add: last_conv_nth)
  ultimately have lastp: "page_of (fst (last pages)) (snd (last pages)) (net w1 (http_calls w1))"
    by (simp add: w1 log_simps)
  have lasto: "\<forall>obj\<in>set (fst (last pages)). stix_object obj"
    using assms(1,3) last_in_set by blast
  from poll_loop_page[OF lastp lasto tok, of cfg "[] @ vs1"] assms(5)
  obtain w2 vs2 where w2:
      "length (requests (trace w2)) = Suc (length (requests (trace w1)))"
      "map Inr vs2 = map pattern_value (filter is_indicator (fst (last pages)))"
      "poll_loop cfg (last (JNull # map snd ?init)) ([] @ vs1) w1 =
         Some (Inr (([] @ vs1) @ vs2), w2)"
    by auto
  have "poll_taxii_server cfg w = Some (Inr (vs1 @ vs2), w2)"
    unfolding poll_taxii_server_def using w1(5) w2(3) by simp
  moreover have "map Inr (vs1 @ vs2) =
      map pattern_value (concat (map (\<lambda>p. filter is_indicator (fst p)) (?init @ [last pages])))"
    using w1(4) w2(2) by simp
  moreover have "length (requests (trace w2)) = length (requests (trace w)) + length pages"
    using w1(3) w2(1) pos by (simp add: requests_log)
  ultimately show ?thesis using split by metis
qed




section \<open>The existence check\<close>








section \<open>Pushing one IOC\<close>











section \<open>Requests to the indicator store\<close>

lemma store_request_simps:
  "\<not> store_request (token_request cfg)" "\<not> store_request (poll_request cfg data)"
  "store_request (query_request ioc_value access_token next_token)"
  "store_request (entities_request m access_token payload)"
  by (simp_all add: store_request_def token_request_def poll_request_def query_request_def
      query_url_def entities_request_def)

lemma store_requests_simps:
  "store_requests (trace (log m w)) = store_requests (trace w)"
  "store_requests (trace (rate_limit cfg w)) = store_requests (trace w)"
  "store_requests (trace (backoff n delay w)) = store_requests (trace w)"
  "store_requests (trace (page_retrieved cfg iocs w)) = store_requests (trace w)"
  "store_requests (trace (snd (requests_send rq w))) =
     store_requests (trace w) @ (if store_request rq then [rq] else [])"
  by (simp_all add: store_requests_def requests_def log_simps rate_limit_simps backoff_simps
      page_retrieved_def requests_send_simps)

lemma get_token_store:
  "store_requests (trace (snd (get_crowdstrike_token cfg w))) = store_requests (trace w)"
proof -
  obtain a w1 where sent: "requests_send (token_request cfg)
      (log [Lit ''Fetching CrowdStrike OAuth2 token...''] w) = (a, w1)"
    by (cases "requests_send (token_request cfg)
      (log [Lit ''Fetching CrowdStrike OAuth2 token...''] w)")
  have w1: "store_requests (trace w1) = store_requests (trace w)"
    using store_requests_simps(5)[of "token_request cfg"
        "log [Lit ''Fetching CrowdStrike OAuth2 token...''] w"]
    by (simp add: sent store_request_simps store_requests_simps)
  show ?thesis
    by (simp add: get_crowdstrike_token_def sent w1 store_requests_simps
        split: sum.splits)
qed

lemma poll_loop_store:
  assumes run: "poll_loop cfg next_token all_iocs w = Some y"
  shows "store_requests (trace (snd y)) = store_requests (trace w)"
  apply (rule poll_loop.raw_induct[where P = "\<lambda>c n a w y. store_requests (trace (snd y)) =
        store_requests (trace w)", OF _ run])
  subgoal premises prems for f cfg next_token all_iocs w y
  proof (cases "poll_data next_token")
    case (Inl e)
    with prems(2) show ?thesis by auto
  next
    case (Inr data)
    obtain a w1 where sent: "requests_send (poll_request cfg data) w = (a, w1)"
      by (cases "requests_send (poll_request cfg data) w")
    have w1: "store_requests (trace w1) = store_requests (trace w)"
      using store_requests_simps(5)[of "poll_request cfg data" w]
      by (simp add: sent store_request_simps)
    from prems(2) show ?thesis
      by (auto simp: Inr sent w1 store_requests_simps split: sum.splits if_splits
          dest!: prems(1))
  qed
  done

lemma poll_store:
  "poll_taxii_server cfg w = Some (r, w') \<Longrightarrow>
   store_requests (trace w') = store_requests (trace w)"
  unfolding poll_taxii_server_def
  using poll_loop_store by (fastforce simp: store_requests_simps)

lemma retry_loop_store:
  "retry_loop func n delay w = Some (r, w') \<Longrightarrow>
   \<forall>w r w'. func w = Some (r, w') \<longrightarrow> store_requests (trace w') = store_requests (trace w) \<Longrightarrow>
   store_requests (trace w') = store_requests (trace w)"
proof (induction func n delay w rule: retry_loop.induct)
  case (1 func n delay w)
  note run = "1.prems"(1) and inv = "1.prems"(2)
  show ?case
  proof (cases "n \<le> MAX_RETRIES")
    case False
    with run show ?thesis
      by (subst (asm) retry_loop.simps) (auto simp: store_requests_simps)
  next
    case True
    show ?thesis
    proof (cases "func w")
      case None
      with True run show ?thesis
        by (subst (asm) retry_loop.simps) simp
    next
      case (Some p)
      obtain v w1 where p: "p = (v, w1)" by (cases p)
      have w1: "store_requests (trace w1) = store_requests (trace w)"
        using inv Some p by blast
      show ?thesis
      proof (cases v)
        case (Inr x)
        with True Some p run w1 show ?thesis
          by (subst (asm) retry_loop.simps) simp
      next
        case (Inl e)
        with True Some p run
        have nxt: "retry_loop func (n + 1) (delay * 2) (backoff n delay w1) = Some (r, w')"
          by (subst (asm) retry_loop.simps) simp
        have "store_requests (trace w') = store_requests (trace (backoff n delay w1))"
          using "1.IH" True Some p Inl nxt inv by blast
        then show ?thesis
          by (simp add: store_requests_simps w1)
      qed
    qed
  qed
qed

lemma retry_store:
  "retry func w = Some (r, w') \<Longrightarrow>
   \<forall>w r w'. func w = Some (r, w') \<longrightarrow> store_requests (trace w') = store_requests (trace w) \<Longrightarrow>
   store_requests (trace w') = store_requests (trace w)"
  unfolding retry_def by (rule retry_loop_store)

section \<open>The transformer: value and kind\<close>

text \<open>
  Claim C7.  For a pattern string that contains \<open>domain-name\<close>, \<open>ipv4-addr\<close> or
  \<open>file:hashes\<close> and a single-quoted value, \<open>transform_stix_to_ioc\<close> returns a record
  whose value is the text between the first and the second single quote and whose type
  follows the keyword, in the priority \<open>domain-name\<close>, then \<open>ipv4-addr\<close>, then
  \<open>file:hashes\<close>: the first keyword that occurs anywhere in the pattern wins.
\<close>

theorem parse_quoted_value:
  assumes "map_of stix_indicator ''pattern'' = Some (JStr pattern)"
    and "pattern = pre @ quote # v @ quote # post"
    and "quote \<notin> set pre" and "quote \<notin> set v"
    and "(\<exists>a b. pattern = a @ ''domain-name'' @ b) \<or> (\<exists>a b. pattern = a @ ''ipv4-addr'' @ b)
         \<or> (\<exists>a b. pattern = a @ ''file:hashes'' @ b)"
  shows "transform_stix_to_ioc (JObj stix_indicator) =
    (Inr (JObj [(''type'', JStr (if \<exists>a b. pattern = a @ ''domain-name'' @ b then ''domain''
                               else if \<exists>a b. pattern = a @ ''ipv4-addr'' @ b then ''ipv4''
                               else ''sha256'')),
                (''value'', JStr v), (''action'', JStr ''detect''),
                (''source'', JStr ''TAXII Import'')]), [])"
proof -
  have kw: "str_in ''domain-name'' pattern \<or> str_in ''ipv4-addr'' pattern \<or> str_in ''file:hashes'' pattern"
    using assms(5) unfolding str_in_iff .
  have v: "split_quote_1 (JStr pattern) = Inr v"
    unfolding assms(2) using assms(3,4) by (rule split_quote_1_two)
  show ?thesis
    unfolding transform_keyword[OF assms(1) kw] transform_classified_def v ioc_dict_def str_in_iff
    by simp
qed

text \<open>A pattern with two keywords: \<open>domain-name\<close> wins although \<open>ipv4-addr\<close> comes
  first, and the value is the first quoted text.\<close>

theorem parse_quoted_value_witness:
  "transform_stix_to_ioc
     (JObj [(''type'', JStr ''indicator''),
            (''pattern'', JStr ''[ipv4-addr:value = '1.2.3.4' OR domain-name:value = 'x.test']'')]) =
   (Inr (JObj [(''type'', JStr ''domain''), (''value'', JStr ''1.2.3.4''),
               (''action'', JStr ''detect''), (''source'', JStr ''TAXII Import'')]), [])"
proof -
  have 1: "map_of [(''type'', JStr ''indicator''),
            (''pattern'', JStr ''[ipv4-addr:value = '1.2.3.4' OR domain-name:value = 'x.test']'')]
          ''pattern'' =
        Some (JStr ''[ipv4-addr:value = '1.2.3.4' OR domain-name:value = 'x.test']'')"
    by simp
  have 2: "''[ipv4-addr:value = '1.2.3.4' OR domain-name:value = 'x.test']'' =
      ''[ipv4-addr:value = '' @ quote # ''1.2.3.4'' @ quote # '' OR domain-name:value = 'x.test']''"
    by (simp add: quote_def)
  have 3: "quote \<notin> set ''[ipv4-addr:value = ''" and 4: "quote \<notin> set ''1.2.3.4''"
    by (simp_all add: quote_def)
  have dom: "\<exists>a b. ''[ipv4-addr:value = '1.2.3.4' OR domain-name:value = 'x.test']'' =
      a @ ''domain-name'' @ b"
    unfolding str_in_iff[symmetric] by simp
  from dom have 5: "(\<exists>a b. ''[ipv4-addr:value = '1.2.3.4' OR domain-name:value = 'x.test']'' =
      a @ ''domain-name'' @ b) \<or> (\<exists>a b. ''[ipv4-addr:value = '1.2.3.4' OR domain-name:value = 'x.test']'' =
      a @ ''ipv4-addr'' @ b) \<or> (\<exists>a b. ''[ipv4-addr:value = '1.2.3.4' OR domain-name:value = 'x.test']'' =
      a @ ''file:hashes'' @ b)"
    by (rule disjI1)
  from parse_quoted_value[OF 1 2 3 4 5] show ?thesis
    by (simp only: dom if_True)
qed

text \<open>
  Claim C3 says that a pattern with a keyword and no closing quote is discarded without
  an exception.  The code has no such check.  With a single quote the record is built
  from everything after the quote; the same pattern without any quote raises
  \<open>IndexError\<close>.
\<close>

theorem parse_unclosed_counterexample:
  "transform_stix_to_ioc (JObj [(''pattern'', JStr ''[domain-name:value = 'example.com'')]) =
     (Inr (JObj [(''type'', JStr ''domain''), (''value'', JStr ''example.com''),
                 (''action'', JStr ''detect''), (''source'', JStr ''TAXII Import'')]), [])
   \<and> transform_stix_to_ioc (JObj [(''pattern'', JStr ''[domain-name:value = example.com'')]) =
     (Inl IndexError, [])"
  by (simp add: transform_stix_to_ioc_def transform_classified_def ioc_dict_def split_def
      quote_def)

text \<open>
  Claim C3, amended.  For a pattern string that contains one of the three keywords:
  without any single quote \<open>transform_stix_to_ioc\<close> raises \<open>IndexError\<close>; with exactly
  one single quote it returns the record of the keyword's type whose value is all the
  text after that quote.  It never discards such a pattern.
\<close>

theorem parse_unclosed_quote:
  assumes "map_of stix_indicator ''pattern'' = Some (JStr pattern)"
    and "(\<exists>a b. pattern = a @ ''domain-name'' @ b) \<or> (\<exists>a b. pattern = a @ ''ipv4-addr'' @ b)
         \<or> (\<exists>a b. pattern = a @ ''file:hashes'' @ b)"
  shows "(quote \<notin> set pattern \<longrightarrow>
            transform_stix_to_ioc (JObj stix_indicator) = (Inl IndexError, []))
       \<and> (\<forall>pre rest. pattern = pre @ quote # rest \<and> quote \<notin> set pre \<and> quote \<notin> set rest \<longrightarrow>
            transform_stix_to_ioc (JObj stix_indicator) =
              (Inr (JObj [(''type'',
                           JStr (if \<exists>a b. pattern = a @ ''domain-name'' @ b then ''domain''
                                 else if \<exists>a b. pattern = a @ ''ipv4-addr'' @ b then ''ipv4''
                                 else ''sha256'')),
                          (''value'', JStr rest), (''action'', JStr ''detect''),
                          (''source'', JStr ''TAXII Import'')]), []))"
proof -
  have kw: "str_in ''domain-name'' pattern \<or> str_in ''ipv4-addr'' pattern \<or> str_in ''file:hashes'' pattern"
    using assms(2) unfolding str_in_iff .
  have cls: "transform_stix_to_ioc (JObj stix_indicator) =
      transform_classified
        (if \<exists>a b. pattern = a @ ''domain-name'' @ b then ''domain''
         else if \<exists>a b. pattern = a @ ''ipv4-addr'' @ b then ''ipv4'' else ''sha256'')
        (JStr pattern)"
    using transform_keyword[OF assms(1) kw] unfolding str_in_iff .
  show ?thesis
  proof (intro conjI impI allI)
    assume "quote \<notin> set pattern"
    then have "split_quote_1 (JStr pattern) = Inl IndexError"
      by (rule split_quote_1_none)
    then show "transform_stix_to_ioc (JObj stix_indicator) = (Inl IndexError, [])"
      unfolding cls transform_classified_def by (simp only: sum.case)
  next
    fix pre rest
    assume "pattern = pre @ quote # rest \<and> quote \<notin> set pre \<and> quote \<notin> set rest"
    then have "split_quote_1 (JStr pattern) = Inr rest"
      using split_quote_1_one[of pre rest] by blast
    then show "transform_stix_to_ioc (JObj stix_indicator) =
              (Inr (JObj [(''type'',
                           JStr (if \<exists>a b. pattern = a @ ''domain-name'' @ b then ''domain''
                                 else if \<exists>a b. pattern = a @ ''ipv4-addr'' @ b then ''ipv4''
                                 else ''sha256'')),
                          (''value'', JStr rest), (''action'', JStr ''detect''),
                          (''source'', JStr ''TAXII Import'')]), [])"
      unfolding cls transform_classified_def ioc_dict_def by (simp only: sum.case)
  qed
qed

theorem parse_unclosed_quote_witness:
  "transform_stix_to_ioc (JObj [(''pattern'', JStr ''file:hashes.MD5 = abc'')]) =
     (Inl IndexError, [])
   \<and> transform_stix_to_ioc (JObj [(''pattern'', JStr ''[ipv4-addr:value = '10.0.0.1]'')]) =
     (Inr (JObj [(''type'', JStr ''ipv4''), (''value'', JStr ''10.0.0.1]''),
                 (''action'', JStr ''detect''), (''source'', JStr ''TAXII Import'')]), [])"
proof -
  have m1: "map_of [(''pattern'', JStr ''file:hashes.MD5 = abc'')] ''pattern'' =
      Some (JStr ''file:hashes.MD5 = abc'')"
    by simp
  have k1: "(\<exists>a b. ''file:hashes.MD5 = abc'' = a @ ''domain-name'' @ b)
      \<or> (\<exists>a b. ''file:hashes.MD5 = abc'' = a @ ''ipv4-addr'' @ b)
      \<or> (\<exists>a b. ''file:hashes.MD5 = abc'' = a @ ''file:hashes'' @ b)"
    unfolding str_in_iff[symmetric] by simp
  have q1: "quote \<notin> set ''file:hashes.MD5 = abc''"
    by (simp add: quote_def)
  have a: "transform_stix_to_ioc (JObj [(''pattern'', JStr ''file:hashes.MD5 = abc'')]) =
      (Inl IndexError, [])"
    using parse_unclosed_quote[OF m1 k1, THEN conjunct1] q1 by (rule mp)
  have m2: "map_of [(''pattern'', JStr ''[ipv4-addr:value = '10.0.0.1]'')] ''pattern'' =
      Some (JStr ''[ipv4-addr:value = '10.0.0.1]'')"
    by simp
  have k2: "(\<exists>a b. ''[ipv4-addr:value = '10.0.0.1]'' = a @ ''domain-name'' @ b)
      \<or> (\<exists>a b. ''[ipv4-addr:value = '10.0.0.1]'' = a @ ''ipv4-addr'' @ b)
      \<or> (\<exists>a b. ''[ipv4-addr:value = '10.0.0.1]'' = a @ ''file:hashes'' @ b)"
    unfolding str_in_iff[symmetric] by simp
  have n2: "(\<exists>a b. ''[ipv4-addr:value = '10.0.0.1]'' = a @ ''domain-name'' @ b) = False"
    and p2: "(\<exists>a b. ''[ipv4-addr:value = '10.0.0.1]'' = a @ ''ipv4-addr'' @ b) = True"
    unfolding str_in_iff[symmetric] by simp_all
  have s2: "''[ipv4-addr:value = '10.0.0.1]'' = ''[ipv4-addr:value = '' @ quote # ''10.0.0.1]'' \<and>
      quote \<notin> set ''[ipv4-addr:value = '' \<and> quote \<notin> set ''10.0.0.1]''"
    by (simp add: quote_def)
  have "\<forall>pre rest. ''[ipv4-addr:value = '10.0.0.1]'' = pre @ quote # rest \<and> quote \<notin> set pre \<and> quote \<notin> set rest \<longrightarrow>
      transform_stix_to_ioc (JObj [(''pattern'', JStr ''[ipv4-addr:value = '10.0.0.1]'')]) =
       (Inr (JObj [(''type'', JStr ''ipv4''), (''value'', JStr rest),
                   (''action'', JStr ''detect''), (''source'', JStr ''TAXII Import'')]), [])"
    using parse_unclosed_quote[OF m2 k2, THEN conjunct2] by (simp only: n2 p2 if_True if_False)
  then have b: "transform_stix_to_ioc (JObj [(''pattern'', JStr ''[ipv4-addr:value = '10.0.0.1]'')]) =
     (Inr (JObj [(''type'', JStr ''ipv4''), (''value'', JStr ''10.0.0.1]''),
                 (''action'', JStr ''detect''), (''source'', JStr ''TAXII Import'')]), [])"
    using s2 by blast
  show ?thesis using a b by (rule conjI)
qed

section \<open>Retrying\<close>

text \<open>
  Claim C4 says that any failure of an attempt, an explicitly returned error result
  included, triggers the backoff and a retry.  \<open>retry\<close> only catches exceptions: when
  \<open>get_crowdstrike_token\<close> returns \<open>None\<close> for a refused request, \<open>retry\<close> returns that
  \<open>None\<close> after one request and without any pause, although the next answer would have
  carried a token.
\<close>

theorem retry_returned_failure_counterexample:
  "result_of (retry (returns (get_crowdstrike_token default_config)) refusing_server) =
     Some (Some JNull)
   \<and> sleeps (trace_of (retry (returns (get_crowdstrike_token default_config)) refusing_server)) = []
   \<and> requests (trace_of (retry (returns (get_crowdstrike_token default_config)) refusing_server)) =
      [token_request default_config]"
proof -
  have r: "net refusing_server (http_calls refusing_server) =
           Inr \<lparr>status_code = 401, response_text = ''denied'', json_body = None\<rparr>"
    by (simp add: refusing_server_def start_world_simps answers_simps error_response_def)
  have "status_code \<lparr>status_code = 401, response_text = ''denied'', json_body = None\<rparr> \<noteq> 200"
    by simp
  note tok = get_token_refused[OF r this, of default_config]
  have n1: "(1::nat) \<le> MAX_RETRIES" by (simp add: MAX_RETRIES_def)
  have f: "returns (get_crowdstrike_token default_config) refusing_server =
      Some (Inr JNull, snd (get_crowdstrike_token default_config refusing_server))"
    by (simp add: returns_def tok)
  have eq: "retry (returns (get_crowdstrike_token default_config)) refusing_server =
      Some (Some JNull, snd (get_crowdstrike_token default_config refusing_server))"
    unfolding retry_def
    by (rule retry_loop_returns[where func="returns (get_crowdstrike_token default_config)", OF n1 f])
  have tr: "trace refusing_server = []"
    by (simp add: refusing_server_def start_world_simps)
  show ?thesis
    unfolding eq
    by (simp add: tok result_of_def trace_of_def sleeps_def requests_def log_simps
        requests_send_simps tr)
qed

text \<open>
  Claim C4, amended.  An attempt that raises an exception makes \<open>retry\<close> wait
  \<open>5 * 2 ^ (attempt - 1)\<close> seconds (5, 10 and, after the third failure, 20) and call the
  operation again while attempts remain, three in all.  An attempt that returns a value,
  a failure value such as \<open>None\<close> included, ends \<open>retry\<close> at once with that value: no
  wait, no retry.  An operation that raises twice and then returns yields its value
  after waits of 5 and 10 seconds; after three raising attempts \<open>retry\<close> returns \<open>None\<close>
  and no exception leaves it.
\<close>

theorem retry_outcomes:
  "(func w = Some (Inr v, w1) \<longrightarrow> retry func w = Some (Some v, w1))
   \<and> (func w = Some (Inl e1, w1) \<and> func (backoff 1 5 w1) = Some (Inr v, w2) \<longrightarrow>
        retry func w = Some (Some v, w2))
   \<and> (func w = Some (Inl e1, w1) \<and> func (backoff 1 5 w1) = Some (Inl e2, w2) \<and>
      func (backoff 2 10 w2) = Some (Inr v, w3) \<longrightarrow>
        retry func w = Some (Some v, w3))
   \<and> (func w = Some (Inl e1, w1) \<and> func (backoff 1 5 w1) = Some (Inl e2, w2) \<and>
      func (backoff 2 10 w2) = Some (Inl e3, w3) \<longrightarrow>
        retry func w =
          Some (None, log [Lit ''The command has failed after maximum retry attempts.'']
                        (backoff 3 20 w3)))
   \<and> sleeps (trace (backoff n delay w)) = sleeps (trace w) @ [delay]"
proof -
  have n1: "(1::nat) \<le> MAX_RETRIES" and n2: "(2::nat) \<le> MAX_RETRIES"
    and n3: "(3::nat) \<le> MAX_RETRIES" and n4: "MAX_RETRIES < 4"
    by (simp_all add: MAX_RETRIES_def)
  have a12: "(1::nat) + 1 = 2" "(2::nat) + 1 = 3" "(3::nat) + 1 = 4"
    "(5::nat) * 2 = 10" "(10::nat) * 2 = 20" "(20::nat) * 2 = 40"
    by simp_all
  have r1: "retry func w = retry_loop func 2 10 (backoff 1 5 w1)"
    if "func w = Some (Inl e1, w1)" for e1 w1
    unfolding retry_def using retry_loop_raises[where func=func and w=w and delay=5, OF n1 that] by (simp only: a12)
  have r2: "retry_loop func 2 10 w' = retry_loop func 3 20 (backoff 2 10 w2)"
    if "func w' = Some (Inl e2, w2)" for e2 w2 w'
    using retry_loop_raises[where func=func and w=w' and delay=10, OF n2 that] by (simp only: a12)
  have r3: "retry_loop func 3 20 w' = retry_loop func 4 40 (backoff 3 20 w3)"
    if "func w' = Some (Inl e3, w3)" for e3 w3 w'
    using retry_loop_raises[where func=func and w=w' and delay=20, OF n3 that] by (simp only: a12)
  show ?thesis
  proof (intro conjI impI)
    assume "func w = Some (Inr v, w1)"
    then show "retry func w = Some (Some v, w1)"
      unfolding retry_def by (rule retry_loop_returns[where func=func, OF n1])
  next
    assume h: "func w = Some (Inl e1, w1) \<and> func (backoff 1 5 w1) = Some (Inr v, w2)"
    show "retry func w = Some (Some v, w2)"
      using h r1 retry_loop_returns[where func=func, OF n2] by simp
  next
    assume h: "func w = Some (Inl e1, w1) \<and> func (backoff 1 5 w1) = Some (Inl e2, w2) \<and>
        func (backoff 2 10 w2) = Some (Inr v, w3)"
    show "retry func w = Some (Some v, w3)"
      using h r1 r2 retry_loop_returns[where func=func, OF n3] by simp
  next
    assume h: "func w = Some (Inl e1, w1) \<and> func (backoff 1 5 w1) = Some (Inl e2, w2) \<and>
        func (backoff 2 10 w2) = Some (Inl e3, w3)"
    show "retry func w =
            Some (None, log [Lit ''The command has failed after maximum retry attempts.'']
                          (backoff 3 20 w3))"
      using h r1 r2 r3 retry_loop_exhausted[where func=func, OF n4] by simp
  next
    show "sleeps (trace (backoff n delay w)) = sleeps (trace w) @ [delay]"
      by (simp add: backoff_simps sleeps_def)
  qed
qed

theorem retry_outcomes_witness:
  "result_of (retry (returns (get_crowdstrike_token default_config)) flaky_server) =
     Some (Some (JStr ''tok''))
   \<and> sleeps (trace_of (retry (returns (get_crowdstrike_token default_config)) flaky_server)) =
     [5, 10]
   \<and> result_of (retry (returns (get_crowdstrike_token default_config)) dead_server) = Some None
   \<and> sleeps (trace_of (retry (returns (get_crowdstrike_token default_config)) dead_server)) =
     [5, 10, 20]"
proof -
  let ?f = "returns (get_crowdstrike_token default_config)"
  define w1 where "w1 = snd (get_crowdstrike_token default_config flaky_server)"
  define w2 where "w2 = snd (get_crowdstrike_token default_config (backoff 1 5 w1))"
  define w3 where "w3 = snd (get_crowdstrike_token default_config (backoff 2 10 w2))"
  have a0: "net flaky_server (http_calls flaky_server) = Inl RequestException"
    by (simp add: flaky_server_def start_world_simps answers_simps)
  have a1: "net (backoff 1 5 w1) (http_calls (backoff 1 5 w1)) = Inl RequestException"
    by (simp add: w1_def backoff_simps get_token_frame flaky_server_def start_world_simps
        answers_simps del: One_nat_def)
  have a2: "net (backoff 2 10 w2) (http_calls (backoff 2 10 w2)) =
      Inr \<lparr>status_code = 200, response_text = [],
           json_body = Some (JObj [(''access_token'', JStr ''tok'')])\<rparr>"
    by (simp add: w2_def w1_def backoff_simps get_token_frame flaky_server_def
        start_world_simps answers_simps ok_response_def del: One_nat_def)
  have f1: "?f flaky_server = Some (Inl RequestException, w1)"
    by (simp add: returns_def w1_def get_token_raise[OF a0])
  have f2: "?f (backoff 1 5 w1) = Some (Inl RequestException, w2)"
    by (simp add: returns_def w2_def get_token_raise[OF a1] del: One_nat_def)
  have f3: "?f (backoff 2 10 w2) = Some (Inr (JStr ''tok''), w3)"
    by (simp add: returns_def w3_def get_token_ok[OF a2])
  have flaky: "retry ?f flaky_server = Some (Some (JStr ''tok''), w3)"
    using retry_outcomes[where func="?f" and w=flaky_server and ?w1.0=w1 and ?w2.0=w2
        and ?w3.0=w3 and ?e1.0=RequestException and ?e2.0=RequestException
        and v="JStr ''tok''"] f1 f2 f3
    by blast
  have tf: "trace flaky_server = []"
    by (simp add: flaky_server_def start_world_simps)
  have s3: "sleeps (trace w3) = [5, 10]"
    using get_token_ok_sleeps[OF a2, where cfg=default_config]
      get_token_raise_sleeps[OF a1, where cfg=default_config]
      get_token_raise_sleeps[OF a0, where cfg=default_config]
    by (simp add: sleeps_simps w3_def[symmetric] w2_def[symmetric] w1_def[symmetric] tf
        del: One_nat_def)
  define d1 where "d1 = snd (get_crowdstrike_token default_config dead_server)"
  define d2 where "d2 = snd (get_crowdstrike_token default_config (backoff 1 5 d1))"
  define d3 where "d3 = snd (get_crowdstrike_token default_config (backoff 2 10 d2))"
  have b0: "net dead_server (http_calls dead_server) = Inl RequestException"
    by (simp add: dead_server_def start_world_simps answers_simps)
  have b1: "net (backoff 1 5 d1) (http_calls (backoff 1 5 d1)) = Inl RequestException"
    by (simp add: d1_def backoff_simps get_token_frame dead_server_def start_world_simps
        answers_simps del: One_nat_def)
  have b2: "net (backoff 2 10 d2) (http_calls (backoff 2 10 d2)) = Inl RequestException"
    by (simp add: d2_def d1_def backoff_simps get_token_frame dead_server_def
        start_world_simps answers_simps del: One_nat_def)
  have g1: "?f dead_server = Some (Inl RequestException, d1)"
    by (simp add: returns_def d1_def get_token_raise[OF b0])
  have g2: "?f (backoff 1 5 d1) = Some (Inl RequestException, d2)"
    by (simp add: returns_def d2_def get_token_raise[OF b1] del: One_nat_def)
  have g3: "?f (backoff 2 10 d2) = Some (Inl RequestException, d3)"
    by (simp add: returns_def d3_def get_token_raise[OF b2])
  have dead: "retry ?f dead_server =
      Some (None, log [Lit ''The command has failed after maximum retry attempts.'']
                    (backoff 3 20 d3))"
    using retry_outcomes[where func="?f" and w=dead_server and ?w1.0=d1 and ?w2.0=d2
        and ?w3.0=d3 and ?e1.0=RequestException and ?e2.0=RequestException
        and ?e3.0=RequestException] g1 g2 g3
    by blast
  have td: "trace dead_server = []"
    by (simp add: dead_server_def start_world_simps)
  have t3: "sleeps (trace (log [Lit ''The command has failed after maximum retry attempts.'']
                    (backoff 3 20 d3))) = [5, 10, 20]"
    using get_token_raise_sleeps[OF b2, where cfg=default_config]
      get_token_raise_sleeps[OF b1, where cfg=default_config]
      get_token_raise_sleeps[OF b0, where cfg=default_config]
    by (simp add: sleeps_simps d3_def[symmetric] d2_def[symmetric] d1_def[symmetric] td
        del: One_nat_def)
  show ?thesis
    unfolding flaky dead using s3 t3 by (simp add: result_of_def trace_of_def)
qed

section \<open>Fetching the token\<close>

text \<open>
  Claim C5 says that a 200 response without \<open>access_token\<close> fails with an error that
  carries the status code and the response body.  \<open>get_crowdstrike_token\<close> returns
  \<open>None\<close> there, and the only line it logs after the request is the line of success.
\<close>

theorem fetch_token_missing_field_counterexample:
  "fst (get_crowdstrike_token default_config tokenless_server) = Inr JNull
   \<and> trace (snd (get_crowdstrike_token default_config tokenless_server)) =
      [LogInfo [Lit ''Fetching CrowdStrike OAuth2 token...''],
       Print [Lit ''Fetching CrowdStrike OAuth2 token...''],
       Http (token_request default_config),
       LogInfo [Lit ''CrowdStrike OAuth2 token acquired.''],
       Print [Lit ''CrowdStrike OAuth2 token acquired.'']]"
proof -
  have r: "net tokenless_server (http_calls tokenless_server) =
      Inr \<lparr>status_code = 200, response_text = [], json_body = Some (JObj [])\<rparr>"
    by (simp add: tokenless_server_def start_world_simps answers_simps ok_response_def)
  have t: "trace tokenless_server = []"
    by (simp add: tokenless_server_def start_world_simps)
  show ?thesis
    using get_token_ok[OF r, of "[]" default_config]
    by (simp add: log_simps requests_send_simps t)
qed

text \<open>
  Claim C5, amended.  \<open>get_crowdstrike_token\<close> returns a token only when the response
  has status 200 and its JSON object carries \<open>access_token\<close>.  For any other status it
  returns \<open>None\<close> after logging the status code and the response body; no exception is
  raised.  For a 200 response whose JSON object lacks \<open>access_token\<close> it returns \<open>None\<close>
  as well, after logging only that the token was acquired: neither the status code nor
  the body is reported.  (The older script raises \<open>KeyError\<close> there.)
\<close>

theorem fetch_token_outcomes:
  "(fst (get_crowdstrike_token cfg w) = Inr token \<and> token \<noteq> JNull \<longrightarrow>
      (\<exists>response doc. net w (http_calls w) = Inr response \<and> status_code response = 200 \<and>
         json_body response = Some (JObj doc) \<and> map_of doc ''access_token'' = Some token))
   \<and> (net w (http_calls w) = Inr response \<and> status_code response \<noteq> 200 \<longrightarrow>
        fst (get_crowdstrike_token cfg w) = Inr JNull \<and>
        trace (snd (get_crowdstrike_token cfg w)) =
          trace w @
          [LogInfo [Lit ''Fetching CrowdStrike OAuth2 token...''],
           Print [Lit ''Fetching CrowdStrike OAuth2 token...''],
           Http (token_request cfg),
           LogInfo [Lit ''Failed to get OAuth2 token: '', Val (JInt (status_code response)),
                    Lit '' '', Val (JStr (response_text response))],
           Print [Lit ''Failed to get OAuth2 token: '', Val (JInt (status_code response)),
                  Lit '' '', Val (JStr (response_text response))]])
   \<and> (net w (http_calls w) = Inr response \<and> status_code response = 200 \<and>
      json_body response = Some (JObj doc) \<and> map_of doc ''access_token'' = None \<longrightarrow>
        fst (get_crowdstrike_token cfg w) = Inr JNull \<and>
        trace (snd (get_crowdstrike_token cfg w)) =
          trace w @
          [LogInfo [Lit ''Fetching CrowdStrike OAuth2 token...''],
           Print [Lit ''Fetching CrowdStrike OAuth2 token...''],
           Http (token_request cfg),
           LogInfo [Lit ''CrowdStrike OAuth2 token acquired.''],
           Print [Lit ''CrowdStrike OAuth2 token acquired.'']] \<and>
        fst (ingestor_get_crowdstrike_token (CLIENT_ID cfg) (CLIENT_SECRET cfg) w) =
          Inl KeyError)"
proof (intro conjI impI)
  assume "fst (get_crowdstrike_token cfg w) = Inr token \<and> token \<noteq> JNull"
  then show "\<exists>response doc. net w (http_calls w) = Inr response \<and> status_code response = 200 \<and>
         json_body response = Some (JObj doc) \<and> map_of doc ''access_token'' = Some token"
    using get_token_value by blast
next
  assume h: "net w (http_calls w) = Inr response \<and> status_code response \<noteq> 200"
  then show "fst (get_crowdstrike_token cfg w) = Inr JNull"
    by (simp add: get_token_refused)
  from h show "trace (snd (get_crowdstrike_token cfg w)) =
          trace w @
          [LogInfo [Lit ''Fetching CrowdStrike OAuth2 token...''],
           Print [Lit ''Fetching CrowdStrike OAuth2 token...''],
           Http (token_request cfg),
           LogInfo [Lit ''Failed to get OAuth2 token: '', Val (JInt (status_code response)),
                    Lit '' '', Val (JStr (response_text response))],
           Print [Lit ''Failed to get OAuth2 token: '', Val (JInt (status_code response)),
                  Lit '' '', Val (JStr (response_text response))]]"
    by (simp add: get_token_refused log_simps requests_send_simps)
next
  assume h: "net w (http_calls w) = Inr response \<and> status_code response = 200 \<and>
      json_body response = Some (JObj doc) \<and> map_of doc ''access_token'' = None"
  then show "fst (get_crowdstrike_token cfg w) = Inr JNull"
    by (simp add: get_token_ok)
  from h show "trace (snd (get_crowdstrike_token cfg w)) =
          trace w @
          [LogInfo [Lit ''Fetching CrowdStrike OAuth2 token...''],
           Print [Lit ''Fetching CrowdStrike OAuth2 token...''],
           Http (token_request cfg),
           LogInfo [Lit ''CrowdStrike OAuth2 token acquired.''],
           Print [Lit ''CrowdStrike OAuth2 token acquired.'']]"
    by (simp add: get_token_ok log_simps requests_send_simps)
  from h show "fst (ingestor_get_crowdstrike_token (CLIENT_ID cfg) (CLIENT_SECRET cfg) w) =
          Inl KeyError"
    by (simp add: ingestor_token_missing)
qed

theorem fetch_token_outcomes_witness:
  "(\<exists>response doc. net granting_server (http_calls granting_server) = Inr response \<and>
      status_code response = 200 \<and> json_body response = Some (JObj doc) \<and>
      map_of doc ''access_token'' = Some (JStr ''tok''))
   \<and> fst (get_crowdstrike_token default_config refusing_server) = Inr JNull
   \<and> trace (snd (get_crowdstrike_token default_config refusing_server)) =
      [LogInfo [Lit ''Fetching CrowdStrike OAuth2 token...''],
       Print [Lit ''Fetching CrowdStrike OAuth2 token...''],
       Http (token_request default_config),
       LogInfo [Lit ''Failed to get OAuth2 token: '', Val (JInt 401), Lit '' '',
                Val (JStr ''denied'')],
       Print [Lit ''Failed to get OAuth2 token: '', Val (JInt 401), Lit '' '',
              Val (JStr ''denied'')]]
   \<and> fst (ingestor_get_crowdstrike_token ''your_client_id'' ''your_client_secret''
           tokenless_server) = Inl KeyError"
proof -
  have g: "net granting_server (http_calls granting_server) =
       Inr \<lparr>status_code = 200, response_text = [],
            json_body = Some (JObj [(''access_token'', JStr ''tok'')])\<rparr>"
    by (simp add: granting_server_def start_world_simps answers_simps ok_response_def)
  have gt: "fst (get_crowdstrike_token default_config granting_server) = Inr (JStr ''tok'')
      \<and> JStr ''tok'' \<noteq> JNull"
    by (simp add: get_token_ok[OF g])
  have 1: "\<exists>response doc. net granting_server (http_calls granting_server) = Inr response \<and>
      status_code response = 200 \<and> json_body response = Some (JObj doc) \<and>
      map_of doc ''access_token'' = Some (JStr ''tok'')"
    using fetch_token_outcomes[where cfg=default_config and w=granting_server
        and token="JStr ''tok''"] gt
    by blast
  have r: "net refusing_server (http_calls refusing_server) =
      Inr \<lparr>status_code = 401, response_text = ''denied'', json_body = None\<rparr> \<and>
      status_code \<lparr>status_code = 401, response_text = ''denied'', json_body = None\<rparr> \<noteq> 200"
    by (simp add: refusing_server_def start_world_simps answers_simps error_response_def)
  have tr: "trace refusing_server = []"
    by (simp add: refusing_server_def start_world_simps)
  have 2: "fst (get_crowdstrike_token default_config refusing_server) = Inr JNull \<and>
      trace (snd (get_crowdstrike_token default_config refusing_server)) =
      [LogInfo [Lit ''Fetching CrowdStrike OAuth2 token...''],
       Print [Lit ''Fetching CrowdStrike OAuth2 token...''],
       Http (token_request default_config),
       LogInfo [Lit ''Failed to get OAuth2 token: '', Val (JInt 401), Lit '' '',
                Val (JStr ''denied'')],
       Print [Lit ''Failed to get OAuth2 token: '', Val (JInt 401), Lit '' '',
              Val (JStr ''denied'')]]"
    using fetch_token_outcomes[where cfg=default_config and w=refusing_server
        and response="\<lparr>status_code = 401, response_text = ''denied'', json_body = None\<rparr>"]
      r
    by (simp add: tr)
  have t: "net tokenless_server (http_calls tokenless_server) =
      Inr \<lparr>status_code = 200, response_text = [], json_body = Some (JObj [])\<rparr> \<and>
      status_code \<lparr>status_code = 200, response_text = [], json_body = Some (JObj [])\<rparr> = 200 \<and>
      json_body \<lparr>status_code = 200, response_text = [], json_body = Some (JObj [])\<rparr> =
        Some (JObj []) \<and>
      map_of ([] :: (string \<times> json) list) ''access_token'' = None"
    by (simp add: tokenless_server_def start_world_simps answers_simps ok_response_def)
  have 3: "fst (ingestor_get_crowdstrike_token ''your_client_id'' ''your_client_secret''
           tokenless_server) = Inl KeyError"
    using fetch_token_outcomes[where cfg=default_config and w=tokenless_server
        and response="\<lparr>status_code = 200, response_text = [], json_body = Some (JObj [])\<rparr>"
        and doc="[]"] t
    by (simp add: default_config_def)
  show ?thesis using 1 2 3 by blast
qed

section \<open>Polling the feed\<close>






section \<open>Reconciliation\<close>





section \<open>An empty poll\<close>

text \<open>
  Claim C10.  When the poll stage ends with an empty list (or with \<open>None\<close>, all attempts
  having failed), \<open>main\<close> goes straight to its last log line: after the poll stage
  nothing else is added to the trace, so there is no per-item pause, and the whole run
  has sent no request to the indicator store, neither existence query nor create nor
  update.
\<close>

theorem empty_poll_skips_reconciliation:
  assumes "retry (returns (get_crowdstrike_token cfg))
             (log [Lit ''TAXII to CrowdStrike IOC ingestion started.''] w) =
           Some (Some access_token, w1)"
    and "truthy access_token"
    and "retry (poll_taxii_server cfg) w1 = Some (iocs, w2)"
    and "iocs = None \<or> iocs = Some []"
  shows "main cfg w = Some (log [Lit ''IOC ingestion and management process complete.''] w2) \<and>
     final_trace (main cfg w) =
       trace w2 @
       [LogInfo [Lit ''IOC ingestion and management process complete.''],
        Print [Lit ''IOC ingestion and management process complete.'']] \<and>
     store_requests (final_trace (main cfg w)) = store_requests (trace w)"
proof -
  have m: "main cfg w = Some (log [Lit ''IOC ingestion and management process complete.''] w2)"
    using assms by (auto simp: main_def)
  have tok: "\<forall>w r w'. returns (get_crowdstrike_token cfg) w = Some (r, w') \<longrightarrow>
      store_requests (trace w') = store_requests (trace w)"
  proof (intro allI impI)
    fix w r w' assume "returns (get_crowdstrike_token cfg) w = Some (r, w')"
    then have "w' = snd (get_crowdstrike_token cfg w)"
      by (auto simp: returns_def)
    then show "store_requests (trace w') = store_requests (trace w)"
      by (simp add: get_token_store)
  qed
  have poll: "\<forall>w r w'. poll_taxii_server cfg w = Some (r, w') \<longrightarrow>
      store_requests (trace w') = store_requests (trace w)"
    using poll_store by blast
  have "store_requests (trace w1) = store_requests (trace w)"
    using retry_store[OF assms(1) tok] by (simp add: store_requests_simps)
  moreover have "store_requests (trace w2) = store_requests (trace w1)"
    by (rule retry_store[OF assms(3) poll])
  ultimately have s: "store_requests (final_trace (main cfg w)) = store_requests (trace w)"
    by (simp add: m final_trace_def store_requests_simps)
  have t: "final_trace (main cfg w) =
       trace w2 @
       [LogInfo [Lit ''IOC ingestion and management process complete.''],
        Print [Lit ''IOC ingestion and management process complete.'']]"
    by (simp add: m final_trace_def log_simps)
  from m t s show ?thesis by blast
qed

theorem empty_poll_skips_reconciliation_witness:
  "main default_config empty_feed \<noteq> None
   \<and> store_requests (final_trace (main default_config empty_feed)) = []
   \<and> last (final_trace (main default_config empty_feed)) =
       Print [Lit ''IOC ingestion and management process complete.'']"
proof -
  let ?f = "returns (get_crowdstrike_token default_config)"
  let ?w0 = "log [Lit ''TAXII to CrowdStrike IOC ingestion started.''] empty_feed"
  define w1 where "w1 = snd (get_crowdstrike_token default_config ?w0)"
  have n1: "(1::nat) \<le> MAX_RETRIES" by (simp add: MAX_RETRIES_def)
  have a: "net ?w0 (http_calls ?w0) =
      Inr \<lparr>status_code = 200, response_text = [],
           json_body = Some (JObj [(''access_token'', JStr ''tok'')])\<rparr>"
    by (simp add: log_simps empty_feed_def start_world_simps answers_simps ok_response_def)
  have f: "?f ?w0 = Some (Inr (JStr ''tok''), w1)"
    by (simp add: returns_def w1_def get_token_ok[OF a])
  have 1: "retry ?f ?w0 = Some (Some (JStr ''tok''), w1)"
    unfolding retry_def by (rule retry_loop_returns[where func="?f", OF n1 f])
  have 2: "truthy (JStr ''tok'')" by simp
  let ?pages = "[([JObj [(''type'', JStr ''malware'')]], JNull)]"
  have p1: "?pages \<noteq> []" by simp
  have p2: "\<forall>i<length ?pages.
      page_of (fst (?pages ! i)) (snd (?pages ! i)) (net w1 (http_calls w1 + i))"
    by (simp add: w1_def get_token_frame log_simps empty_feed_def start_world_simps
        answers_simps page_of_def ok_response_def)
  have p3: "\<forall>p\<in>set ?pages. \<forall>obj\<in>set (fst p). stix_object obj"
    by (simp add: stix_object_def)
  have p4: "\<forall>p\<in>set (butlast ?pages). cursor (snd p)" by simp
  have p5: "\<not> truthy (snd (last ?pages))" by simp
  from poll_taxii_server_pages[OF p1 p2 p3 p4 p5, of default_config]
  obtain vs w2 where w2: "poll_taxii_server default_config w1 = Some (Inr vs, w2)"
      "map Inr vs = map pattern_value (concat (map (\<lambda>p. filter is_indicator (fst p)) ?pages))"
    by blast
  from w2(2) have "vs = []"
    by (simp add: is_indicator_def)
  with w2(1) have "poll_taxii_server default_config w1 = Some (Inr [], w2)" by simp
  then have 3: "retry (poll_taxii_server default_config) w1 = Some (Some [], w2)"
    unfolding retry_def
    by (rule retry_loop_returns[where func="poll_taxii_server default_config", OF n1])
  have 4: "Some ([] :: string list) = None \<or> Some ([] :: string list) = Some []" by simp
  have t: "store_requests (trace empty_feed) = []"
    by (simp add: empty_feed_def start_world_simps store_requests_def requests_def)
  note th = empty_poll_skips_reconciliation[OF 1 2 3 4]
  from th[THEN conjunct1] have m: "main default_config empty_feed \<noteq> None" by simp
  from th[THEN conjunct2, THEN conjunct1]
  have "last (final_trace (main default_config empty_feed)) =
      Print [Lit ''IOC ingestion and management process complete.'']"
    by simp
  moreover from th[THEN conjunct2, THEN conjunct2]
  have "store_requests (final_trace (main default_config empty_feed)) = []"
    by (simp add: t)
  ultimately show ?thesis using m by blast
qed

end
